theory Spec2Isabelle
  imports Complex_Main "HOL-Library.Multiset"
begin

section \<open>Python values, exceptions and the built-in operations the code uses\<close>

text \<open>
  Rules, parameters, contexts and action outputs are Python dictionaries of type
  \<open>Dict[str, Any]\<close>. A value of type \<open>Any\<close> is a \<open>pyval\<close>; a dictionary is an
  association list in insertion order. Floats are modelled as exact reals (the rounding
  and the overflow of binary64 are not part of the model). An exception is a value of
  type \<open>exn\<close>, and a
  computation that may raise returns \<open>exn + 'a\<close> with \<open>Inl\<close> for the raise.
\<close>

datatype pyval =
    PNone
  | PBool bool
  | PInt int
  | PFloat real
  | PStr string
  | PList "pyval list"
  | PDict "(string \<times> pyval) list"

datatype exn =
    KeyError string
  | TypeError string
  | AttributeError string
  | ValueError string
  | RuntimeError string
  | OtherException string

definition quote :: "string \<Rightarrow> string" where
  "quote s = CHR 0x27 # s @ [CHR 0x27]"

text \<open>\<open>str(e)\<close>: the message, and for a \<open>KeyError\<close> the quoted key.\<close>

fun str_exn :: "exn \<Rightarrow> string" where
  "str_exn (KeyError k) = quote k"
| "str_exn (TypeError m) = m"
| "str_exn (AttributeError m) = m"
| "str_exn (ValueError m) = m"
| "str_exn (RuntimeError m) = m"
| "str_exn (OtherException m) = m"

definition bind_exn :: "exn + 'a \<Rightarrow> ('a \<Rightarrow> exn + 'b) \<Rightarrow> exn + 'b" where
  "bind_exn m f = (case m of Inl e \<Rightarrow> Inl e | Inr x \<Rightarrow> f x)"

fun type_name :: "pyval \<Rightarrow> string" where
  "type_name PNone = ''NoneType''"
| "type_name (PBool b) = ''bool''"
| "type_name (PInt n) = ''int''"
| "type_name (PFloat r) = ''float''"
| "type_name (PStr s) = ''str''"
| "type_name (PList l) = ''list''"
| "type_name (PDict d) = ''dict''"

text \<open>\<open>d.get(k, default)\<close>; on a value that is no dictionary the attribute lookup raises.\<close>

fun py_get :: "pyval \<Rightarrow> string \<Rightarrow> pyval \<Rightarrow> exn + pyval" where
  "py_get (PDict d) k dflt = Inr (case map_of d k of Some v \<Rightarrow> v | None \<Rightarrow> dflt)"
| "py_get v k dflt =
     Inl (AttributeError (quote (type_name v) @ '' object has no attribute '' @ quote ''get''))"

text \<open>Truth value of an object, as \<open>if x:\<close> tests it.\<close>

fun py_truthy :: "pyval \<Rightarrow> bool" where
  "py_truthy PNone = False"
| "py_truthy (PBool b) = b"
| "py_truthy (PInt n) = (n \<noteq> 0)"
| "py_truthy (PFloat r) = (r \<noteq> 0)"
| "py_truthy (PStr s) = (s \<noteq> [])"
| "py_truthy (PList l) = (l \<noteq> [])"
| "py_truthy (PDict d) = (d \<noteq> [])"

fun int_like :: "pyval \<Rightarrow> int option" where
  "int_like (PBool b) = Some (if b then 1 else 0)"
| "int_like (PInt n) = Some n"
| "int_like v = None"

fun num_like :: "pyval \<Rightarrow> real option" where
  "num_like (PBool b) = Some (if b then 1 else 0)"
| "num_like (PInt n) = Some (real_of_int n)"
| "num_like (PFloat r) = Some r"
| "num_like v = None"

definition cant_multiply :: "pyval \<Rightarrow> exn" where
  "cant_multiply other =
     TypeError (''can'' @ [CHR 0x27] @ ''t multiply sequence by non-int of type ''
                @ quote (type_name other))"

definition unsupported_operand :: "string \<Rightarrow> pyval \<Rightarrow> pyval \<Rightarrow> exn" where
  "unsupported_operand opr a b =
     TypeError (''unsupported operand type(s) for '' @ opr @ '': ''
                @ quote (type_name a) @ '' and '' @ quote (type_name b))"

text \<open>
  \<open>a * b\<close>: numbers multiply (the result is a float as soon as one factor is), a string
  or list is repeated by an integer, everything else is a \<open>TypeError\<close>.
\<close>

definition py_mul :: "pyval \<Rightarrow> pyval \<Rightarrow> exn + pyval" where
  "py_mul a b =
     (case (int_like a, int_like b) of
        (Some m, Some n) \<Rightarrow> Inr (PInt (m * n))
      | _ \<Rightarrow>
     (case (num_like a, num_like b) of
        (Some x, Some y) \<Rightarrow> Inr (PFloat (x * y))
      | _ \<Rightarrow>
     (case a of
        PStr s \<Rightarrow> (case int_like b of
                     Some n \<Rightarrow> Inr (PStr (concat (replicate (nat n) s)))
                   | None \<Rightarrow> Inl (cant_multiply b))
      | PList l \<Rightarrow> (case int_like b of
                     Some n \<Rightarrow> Inr (PList (concat (replicate (nat n) l)))
                   | None \<Rightarrow> Inl (cant_multiply b))
      | _ \<Rightarrow>
     (case b of
        PStr s \<Rightarrow> (case int_like a of
                     Some n \<Rightarrow> Inr (PStr (concat (replicate (nat n) s)))
                   | None \<Rightarrow> Inl (cant_multiply a))
      | PList l \<Rightarrow> (case int_like a of
                     Some n \<Rightarrow> Inr (PList (concat (replicate (nat n) l)))
                   | None \<Rightarrow> Inl (cant_multiply a))
      | _ \<Rightarrow> Inl (unsupported_operand ''*'' a b)))))"

text \<open>\<open>a > n\<close> for an integer constant \<open>n\<close>.\<close>

definition py_gt_int :: "pyval \<Rightarrow> int \<Rightarrow> exn + bool" where
  "py_gt_int a n =
     (case num_like a of
        Some x \<Rightarrow> Inr (real_of_int n < x)
      | None \<Rightarrow> Inl (TypeError (quote ''>'' @ '' not supported between instances of ''
                                @ quote (type_name a) @ '' and '' @ quote ''int'')))"

text \<open>\<open>a >= n\<close> for an integer constant \<open>n\<close>.\<close>

definition py_ge_int :: "pyval \<Rightarrow> int \<Rightarrow> exn + bool" where
  "py_ge_int a n =
     (case num_like a of
        Some x \<Rightarrow> Inr (real_of_int n \<le> x)
      | None \<Rightarrow> Inl (TypeError (quote ''>='' @ '' not supported between instances of ''
                                @ quote (type_name a) @ '' and '' @ quote ''int'')))"

text \<open>
  \<open>for x in v\<close>: the elements of a list, the keys of a dictionary, the characters of a
  string; no other value that JSON can hold is iterable.
\<close>

fun py_iter :: "pyval \<Rightarrow> exn + pyval list" where
  "py_iter (PList l) = Inr l"
| "py_iter (PDict d) = Inr (map (\<lambda>kv. PStr (fst kv)) d)"
| "py_iter (PStr s) = Inr (map (\<lambda>c. PStr [c]) s)"
| "py_iter v = Inl (TypeError (quote (type_name v) @ '' object is not iterable''))"

text \<open>
  \<open>a == b\<close>: numbers (\<open>True\<close> and \<open>False\<close> being 1 and 0) are equal by value, a string
  or \<open>None\<close> equals only its like, lists are equal element by element and dictionaries
  key by key, whatever the order of insertion (the keys of a dictionary are distinct).
\<close>

fun py_eq :: "pyval \<Rightarrow> pyval \<Rightarrow> bool" where
  "py_eq (PList xs) (PList ys) = list_all2 py_eq xs ys"
| "py_eq (PDict d1) (PDict d2) =
     (length d1 = length d2 \<and>
      list_all (\<lambda>kv. list_ex (\<lambda>kw. fst kv = fst kw \<and> py_eq (snd kv) (snd kw)) d2) d1)"
| "py_eq a b =
     (case (num_like a, num_like b) of
        (Some x, Some y) \<Rightarrow> x = y
      | (None, None) \<Rightarrow> a = b
      | _ \<Rightarrow> False)"

text \<open>Strings are ordered by their code points, the first difference deciding.\<close>

fun str_lt :: "string \<Rightarrow> string \<Rightarrow> bool" where
  "str_lt [] [] = False"
| "str_lt [] (d # t) = True"
| "str_lt (c # s) [] = False"
| "str_lt (c # s) (d # t) = ((of_char c :: nat) < of_char d \<or> (c = d \<and> str_lt s t))"

text \<open>
  \<open>a < b\<close>: numbers by value, strings by code points, lists by their first pair of
  unequal elements (a proper prefix is smaller); every other pair is a \<open>TypeError\<close>,
  \<open>None < None\<close> and a dictionary against a dictionary included.
\<close>

fun py_lt :: "pyval \<Rightarrow> pyval \<Rightarrow> exn + bool" where
  "py_lt (PStr s) (PStr t) = Inr (str_lt s t)"
| "py_lt (PList []) (PList ys) = Inr (ys \<noteq> [])"
| "py_lt (PList (x # xs)) (PList []) = Inr False"
| "py_lt (PList (x # xs)) (PList (y # ys)) =
     (if py_eq x y then py_lt (PList xs) (PList ys) else py_lt x y)"
| "py_lt a b =
     (case (num_like a, num_like b) of
        (Some x, Some y) \<Rightarrow> Inr (x < y)
      | _ \<Rightarrow> Inl (TypeError (quote ''<'' @ '' not supported between instances of ''
                             @ quote (type_name a) @ '' and '' @ quote (type_name b))))"

text \<open>
  \<open>xs.sort(key=f)\<close>: a stable sort that compares keys with \<open><\<close> only and raises what a
  comparison raises. The elements are taken from left to right and each is moved down
  from the upper end of the part already sorted (kept here in reverse), past the
  elements it is smaller than; a list of one element or none is compared with nothing.
  Python's own algorithm places an element by bisection and merges the runs of a long
  list, so it may compare other pairs: that changes no result of a sort that raises
  nothing, and for keys that are numbers, strings, \<open>None\<close> or dictionaries it changes
  neither whether the sort raises nor the class of the exception, only which two types
  the message of the \<open>TypeError\<close> names, and that only when the keys are of three types
  or more or the list has 64 elements or more.
\<close>

fun py_insort :: "('a \<Rightarrow> pyval) \<Rightarrow> 'a \<Rightarrow> 'a list \<Rightarrow> exn + 'a list" where
  "py_insort key x [] = Inr [x]"
| "py_insort key x (y # ys) =
     bind_exn (py_lt (key x) (key y)) (\<lambda>smaller.
       if smaller then bind_exn (py_insort key x ys) (\<lambda>zs. Inr (y # zs))
       else Inr (x # y # ys))"

fun py_sort_loop :: "('a \<Rightarrow> pyval) \<Rightarrow> 'a list \<Rightarrow> 'a list \<Rightarrow> exn + 'a list" where
  "py_sort_loop key [] sorted_part = Inr (rev sorted_part)"
| "py_sort_loop key (x # xs) sorted_part =
     bind_exn (py_insort key x sorted_part) (py_sort_loop key xs)"

definition py_sort_key :: "('a \<Rightarrow> pyval) \<Rightarrow> 'a list \<Rightarrow> exn + 'a list" where
  "py_sort_key key xs = py_sort_loop key xs []"

text \<open>
  \<open>int(x)\<close>: a float is truncated towards zero; a string is parsed as a decimal literal
  (surrounding white space, an optional sign, digits with single underscores between
  them). In the message of the \<open>ValueError\<close> the string is shown between quotes, as
  \<open>repr\<close> shows a string that needs no escapes. Digits and white space outside ASCII,
  which \<open>int\<close> accepts as well, are not part of the model.
\<close>

definition is_space :: "char \<Rightarrow> bool" where
  "is_space c = (c \<in> set [CHR 0x09, CHR 0x0A, CHR 0x0B, CHR 0x0C, CHR 0x0D, CHR 0x20])"

definition strip :: "string \<Rightarrow> string" where
  "strip s = rev (dropWhile is_space (rev (dropWhile is_space s)))"

definition is_digit :: "char \<Rightarrow> bool" where
  "is_digit c = (48 \<le> (of_char c :: nat) \<and> (of_char c :: nat) \<le> 57)"

fun parse_digits :: "string \<Rightarrow> bool \<Rightarrow> int \<Rightarrow> int option" where
  "parse_digits [] prev acc = (if prev then Some acc else None)"
| "parse_digits (c # cs) prev acc =
     (if is_digit c then parse_digits cs True (10 * acc + (int (of_char c) - 48))
      else if c = CHR ''_'' \<and> prev then parse_digits cs False acc
      else None)"

definition parse_int :: "string \<Rightarrow> int option" where
  "parse_int s =
     (case strip s of
        [] \<Rightarrow> None
      | c # r \<Rightarrow>
          (if c = CHR ''-'' then map_option uminus (parse_digits r False 0)
           else if c = CHR ''+'' then parse_digits r False 0
           else parse_digits (c # r) False 0))"

fun py_int :: "pyval \<Rightarrow> exn + int" where
  "py_int (PBool b) = Inr (if b then 1 else 0)"
| "py_int (PInt n) = Inr n"
| "py_int (PFloat r) = Inr (if 0 \<le> r then \<lfloor>r\<rfloor> else \<lceil>r\<rceil>)"
| "py_int (PStr s) =
     (case parse_int s of
        Some n \<Rightarrow> Inr n
      | None \<Rightarrow> Inl (ValueError (''invalid literal for int() with base 10: '' @ quote s)))"
| "py_int v =
     Inl (TypeError (''int() argument must be a string, a bytes-like object or a real number, not ''
                     @ quote (type_name v)))"

text \<open>\<open>str(n)\<close> for a natural number: its decimal digits.\<close>

fun str_nat :: "nat \<Rightarrow> string" where
  "str_nat n = (if n < 10 then [char_of (48 + n)] else str_nat (n div 10) @ [char_of (48 + n mod 10)])"

declare str_nat.simps [simp del]

section \<open>The default action executor\<close>

text \<open>
  What the code reads from its surroundings: the clock (\<open>datetime.now().isoformat()\<close>),
  the text \<open>traceback.format_exc()\<close> renders for a caught exception, and the
  interpreter's rendering of a value.
\<close>

record runtime =
  isoformat_now :: string
  format_exc :: "exn \<Rightarrow> string"
  repr :: "pyval \<Rightarrow> string"

text \<open>
  \<open>str(x)\<close> as an f-string renders it: a string is itself, any other value is rendered
  by the interpreter (\<open>repr\<close>, given with the runtime).
\<close>

definition py_str :: "runtime \<Rightarrow> pyval \<Rightarrow> string" where
  "py_str rt v = (case v of PStr s \<Rightarrow> s | _ \<Rightarrow> repr rt v)"

type_synonym handler = "pyval \<Rightarrow> pyval \<Rightarrow> exn + pyval"

subsection \<open>Finance actions\<close>

definition approve_basic_review :: "runtime \<Rightarrow> handler" where
  "approve_basic_review rt parameters context =
     Inr (PDict [
       (''success'', PBool True),
       (''action_taken'', PStr ''loan_approved_for_basic_review''),
       (''next_steps'', PList [PStr ''Basic underwriting review'', PStr ''Document verification'']),
       (''approval_level'', PStr ''basic''),
       (''timestamp'', PStr (isoformat_now rt))])"

definition require_manual_review :: "runtime \<Rightarrow> handler" where
  "require_manual_review rt parameters context =
     Inr (PDict [
       (''success'', PBool True),
       (''action_taken'', PStr ''manual_review_required''),
       (''assigned_to'', PStr ''senior_underwriter''),
       (''priority'', PStr ''high''),
       (''review_criteria'', parameters),
       (''timestamp'', PStr (isoformat_now rt))])"

definition instant_approve :: "runtime \<Rightarrow> handler" where
  "instant_approve rt parameters context =
     bind_exn (py_get context ''loan_amount'' (PInt 0)) (\<lambda>amount.
     bind_exn (py_get context ''interest_rate'' (PStr ''TBD'')) (\<lambda>rate.
     Inr (PDict [
       (''success'', PBool True),
       (''action_taken'', PStr ''instant_approval''),
       (''approval_amount'', amount),
       (''approval_rate'', rate),
       (''timestamp'', PStr (isoformat_now rt))])))"

definition require_collateral :: "runtime \<Rightarrow> handler" where
  "require_collateral rt parameters context =
     Inr (PDict [
       (''success'', PBool True),
       (''action_taken'', PStr ''collateral_required''),
       (''collateral_percentage'', PInt 80),
       (''acceptable_collateral_types'',
          PList [PStr ''real_estate'', PStr ''securities'', PStr ''cash_deposit'']),
       (''timestamp'', PStr (isoformat_now rt))])"

definition deny_access :: "runtime \<Rightarrow> handler" where
  "deny_access rt parameters context =
     bind_exn (py_get parameters ''authorized_roles'' (PList [])) (\<lambda>roles.
     Inr (PDict [
       (''success'', PBool True),
       (''action_taken'', PStr ''access_denied''),
       (''reason'', PStr ''Insufficient privileges for financial data access''),
       (''required_roles'', roles),
       (''timestamp'', PStr (isoformat_now rt))]))"

subsection \<open>Inventory actions\<close>

definition generate_low_stock_alert :: "runtime \<Rightarrow> handler" where
  "generate_low_stock_alert rt parameters context =
     bind_exn (py_get context ''current_stock'' (PInt 0)) (\<lambda>cur.
     bind_exn (py_get context ''minimum_stock_level'' (PInt 0)) (\<lambda>minimum.
     Inr (PDict [
       (''success'', PBool True),
       (''action_taken'', PStr ''low_stock_alert_generated''),
       (''alert_sent_to'', PList [PStr ''inventory_manager'', PStr ''procurement_team'']),
       (''current_stock'', cur),
       (''minimum_stock'', minimum),
       (''timestamp'', PStr (isoformat_now rt))])))"

definition emergency_reorder :: "runtime \<Rightarrow> handler" where
  "emergency_reorder rt parameters context =
     bind_exn (py_get context ''minimum_stock_level'' (PInt 100)) (\<lambda>level.
     bind_exn (py_mul level (PInt 2)) (\<lambda>reorder_quantity.
     Inr (PDict [
       (''success'', PBool True),
       (''action_taken'', PStr ''emergency_reorder_initiated''),
       (''reorder_quantity'', reorder_quantity),
       (''supplier'', PStr ''primary_supplier''),
       (''expected_delivery'', PStr ''24-48 hours''),
       (''timestamp'', PStr (isoformat_now rt))])))"

definition block_reorder :: "runtime \<Rightarrow> handler" where
  "block_reorder rt parameters context =
     bind_exn (py_get context ''current_stock'' (PInt 0)) (\<lambda>cur.
     bind_exn (py_get context ''maximum_stock_level'' (PInt 0)) (\<lambda>maximum.
     Inr (PDict [
       (''success'', PBool True),
       (''action_taken'', PStr ''reorder_blocked''),
       (''reason'', PStr ''Current stock exceeds maximum threshold''),
       (''current_stock'', cur),
       (''maximum_stock'', maximum),
       (''timestamp'', PStr (isoformat_now rt))])))"

definition increase_reorder_quantity :: "runtime \<Rightarrow> handler" where
  "increase_reorder_quantity rt parameters context =
     bind_exn (py_get context ''normal_reorder_quantity'' (PInt 100)) (\<lambda>base_quantity.
     bind_exn (py_get parameters ''seasonal_multiplier'' (PFloat (3 / 2))) (\<lambda>multiplier.
     bind_exn (py_mul base_quantity multiplier) (\<lambda>product.
     bind_exn (py_int product) (\<lambda>new_quantity.
     Inr (PDict [
       (''success'', PBool True),
       (''action_taken'', PStr ''reorder_quantity_increased''),
       (''original_quantity'', base_quantity),
       (''new_quantity'', PInt new_quantity),
       (''multiplier'', multiplier),
       (''reason'', PStr ''Seasonal demand adjustment''),
       (''timestamp'', PStr (isoformat_now rt))])))))"

definition mark_for_clearance :: "runtime \<Rightarrow> handler" where
  "mark_for_clearance rt parameters context =
     bind_exn (py_get context ''expiry_date'' PNone) (\<lambda>expiry.
     Inr (PDict [
       (''success'', PBool True),
       (''action_taken'', PStr ''marked_for_clearance''),
       (''clearance_discount'', PStr ''50%''),
       (''expiry_date'', expiry),
       (''notification_sent'', PStr ''sales_team''),
       (''timestamp'', PStr (isoformat_now rt))]))"

subsection \<open>Compliance actions\<close>

definition schedule_data_deletion :: "runtime \<Rightarrow> handler" where
  "schedule_data_deletion rt parameters context =
     bind_exn (py_get context ''data_type'' (PStr ''personal'')) (\<lambda>categories.
     Inr (PDict [
       (''success'', PBool True),
       (''action_taken'', PStr ''data_deletion_scheduled''),
       (''scheduled_date'', PStr ''30 days from now''),
       (''data_categories'', categories),
       (''compliance_regulation'', PStr ''GDPR''),
       (''timestamp'', PStr (isoformat_now rt))]))"

definition request_consent_renewal :: "runtime \<Rightarrow> handler" where
  "request_consent_renewal rt parameters context =
     bind_exn (py_get context ''user_email'' (PStr ''user'')) (\<lambda>email.
     Inr (PDict [
       (''success'', PBool True),
       (''action_taken'', PStr ''consent_renewal_requested''),
       (''notification_sent'', email),
       (''consent_type'', PStr ''data_processing''),
       (''deadline'', PStr ''30 days''),
       (''timestamp'', PStr (isoformat_now rt))]))"

definition execute_data_deletion :: "runtime \<Rightarrow> handler" where
  "execute_data_deletion rt parameters context =
     Inr (PDict [
       (''success'', PBool True),
       (''action_taken'', PStr ''data_deleted''),
       (''deletion_scope'', PStr ''all_personal_data''),
       (''verification_required'', PBool True),
       (''compliance_log_updated'', PBool True),
       (''timestamp'', PStr (isoformat_now rt))])"

definition enforce_encryption :: "runtime \<Rightarrow> handler" where
  "enforce_encryption rt parameters context =
     bind_exn (py_get parameters ''required_encryption_standard'' (PStr ''AES256'')) (\<lambda>standard.
     Inr (PDict [
       (''success'', PBool True),
       (''action_taken'', PStr ''encryption_enforced''),
       (''encryption_standard'', standard),
       (''data_encrypted'', PBool True),
       (''compliance_status'', PStr ''PCI-DSS compliant''),
       (''timestamp'', PStr (isoformat_now rt))]))"

subsection \<open>Customer service actions\<close>

definition route_to_senior_agent :: "runtime \<Rightarrow> handler" where
  "route_to_senior_agent rt parameters context =
     bind_exn (py_get context ''customer_tier'' (PStr ''VIP'')) (\<lambda>tier.
     Inr (PDict [
       (''success'', PBool True),
       (''action_taken'', PStr ''routed_to_senior_agent''),
       (''agent_type'', PStr ''senior_support''),
       (''priority'', PStr ''high''),
       (''customer_tier'', tier),
       (''timestamp'', PStr (isoformat_now rt))]))"

definition escalate_to_technical_team :: "runtime \<Rightarrow> handler" where
  "escalate_to_technical_team rt parameters context =
     bind_exn (py_get context ''complexity_score'' (PInt 8)) (\<lambda>score.
     Inr (PDict [
       (''success'', PBool True),
       (''action_taken'', PStr ''escalated_to_technical_team''),
       (''team'', PStr ''technical_support''),
       (''complexity_score'', score),
       (''issue_category'', PStr ''technical''),
       (''timestamp'', PStr (isoformat_now rt))]))"

text \<open>The two clock readings of this handler are taken as one.\<close>

definition route_to_global_team :: "runtime \<Rightarrow> handler" where
  "route_to_global_team rt parameters context =
     Inr (PDict [
       (''success'', PBool True),
       (''action_taken'', PStr ''routed_to_global_team''),
       (''team_location'', PStr ''asia_pacific''),
       (''reason'', PStr ''after_hours_support''),
       (''local_time'', PStr (isoformat_now rt)),
       (''timestamp'', PStr (isoformat_now rt))])"

definition route_to_billing_specialist :: "runtime \<Rightarrow> handler" where
  "route_to_billing_specialist rt parameters context =
     bind_exn (py_get context ''dispute_amount'' (PInt 0)) (\<lambda>amount.
     bind_exn (py_get context ''dispute_amount'' (PInt 0)) (\<lambda>amount2.
     bind_exn (py_gt_int amount2 1000) (\<lambda>large.
     Inr (PDict [
       (''success'', PBool True),
       (''action_taken'', PStr ''routed_to_billing_specialist''),
       (''specialist_team'', PStr ''billing_disputes''),
       (''dispute_amount'', amount),
       (''priority'', PStr (if large then ''high'' else ''normal'')),
       (''timestamp'', PStr (isoformat_now rt))]))))"

subsection \<open>The registry and its dispatch\<close>

definition supported_actions :: "runtime \<Rightarrow> (string \<times> handler) list" where
  "supported_actions rt = [
     (''approve_basic_review'', approve_basic_review rt),
     (''require_manual_review'', require_manual_review rt),
     (''instant_approve'', instant_approve rt),
     (''require_collateral'', require_collateral rt),
     (''deny_access'', deny_access rt),
     (''generate_low_stock_alert'', generate_low_stock_alert rt),
     (''emergency_reorder'', emergency_reorder rt),
     (''block_reorder'', block_reorder rt),
     (''increase_reorder_quantity'', increase_reorder_quantity rt),
     (''mark_for_clearance'', mark_for_clearance rt),
     (''schedule_data_deletion'', schedule_data_deletion rt),
     (''request_consent_renewal'', request_consent_renewal rt),
     (''execute_data_deletion'', execute_data_deletion rt),
     (''enforce_encryption'', enforce_encryption rt),
     (''route_to_senior_agent'', route_to_senior_agent rt),
     (''escalate_to_technical_team'', escalate_to_technical_team rt),
     (''route_to_global_team'', route_to_global_team rt),
     (''route_to_billing_specialist'', route_to_billing_specialist rt)]"

text \<open>
  \<open>DefaultActionExecutor.execute\<close>: the membership test, then the handler call inside
  \<open>try\<close>/\<open>except Exception\<close>.
\<close>

definition DefaultActionExecutor_execute :: "runtime \<Rightarrow> string \<Rightarrow> pyval \<Rightarrow> pyval \<Rightarrow> exn + pyval" where
  "DefaultActionExecutor_execute rt action parameters context =
     (case map_of (supported_actions rt) action of
        None \<Rightarrow>
          Inr (PDict [
            (''success'', PBool False),
            (''error'', PStr (''Unsupported action: '' @ action)),
            (''supported_actions'', PList (map (\<lambda>kv. PStr (fst kv)) (supported_actions rt)))])
      | Some h \<Rightarrow>
          (case h parameters context of
             Inr out \<Rightarrow> Inr out
           | Inl e \<Rightarrow>
               Inr (PDict [
                 (''success'', PBool False),
                 (''error'', PStr (''Error executing '' @ action @ '': '' @ str_exn e)),
                 (''traceback'', PStr (format_exc rt e))])))"

text \<open>\<open>validate_parameters\<close>: \<open>isinstance(parameters, dict)\<close>.\<close>

fun DefaultActionExecutor_validate_parameters :: "string \<Rightarrow> pyval \<Rightarrow> exn + bool" where
  "DefaultActionExecutor_validate_parameters action (PDict d) = Inr True"
| "DefaultActionExecutor_validate_parameters action v = Inr False"

section \<open>The execution engine\<close>

datatype ExecutionStatus = PENDING | RUNNING | COMPLETED | FAILED | SKIPPED

fun status_value :: "ExecutionStatus \<Rightarrow> string" where
  "status_value PENDING = ''pending''"
| "status_value RUNNING = ''running''"
| "status_value COMPLETED = ''completed''"
| "status_value FAILED = ''failed''"
| "status_value SKIPPED = ''skipped''"

text \<open>
  A rule is a dictionary. The keys the code reads with \<open>rule[...]\<close> and as text
  (\<open>id\<close>, \<open>name\<close>, \<open>action\<close>) are strings here; \<open>priority\<close> and \<open>parameters\<close>, which
  the engine reads with \<open>rule.get\<close>, may be absent (\<open>None\<close> in the model) and hold any
  value (the request model of the API declares \<open>priority: Optional[int]\<close>). The
  remaining keys are the ones the decision pipeline writes.
\<close>

record rule =
  key_id :: string
  key_name :: string
  key_description :: "string option"
  key_condition :: "string option"
  key_action :: string
  key_priority :: "pyval option"
  key_parameters :: "pyval option"
  key_confidence :: "real option"
  key_reasoning :: "string option"
  key_execution_order :: "pyval option"
  key_expected_outcome :: "pyval option"

text \<open>
  The clock readings \<open>start_time\<close> and \<open>end_time\<close> of results and plans (and the
  durations derived from them) take no part in any decision of the engine and are left
  out of the records.
\<close>

record ExecutionResult =
  rule_id :: string
  rule_name :: string
  status :: ExecutionStatus
  result_output :: pyval
  error_message :: "pyval option"
  execution_logs :: "string list"

record ExecutionPlan =
  plan_id :: string
  scenario :: string
  rules :: "rule list"
  plan_context :: pyval
  execution_results :: "ExecutionResult list"
  overall_status :: ExecutionStatus

text \<open>The abstract \<open>ActionExecutor\<close>: any implementation, and either method may raise.\<close>

record ActionExecutor =
  execute :: "string \<Rightarrow> pyval \<Rightarrow> pyval \<Rightarrow> exn + pyval"
  validate_parameters :: "string \<Rightarrow> pyval \<Rightarrow> exn + bool"

definition DefaultActionExecutor :: "runtime \<Rightarrow> ActionExecutor" where
  "DefaultActionExecutor rt =
     \<lparr>execute = DefaultActionExecutor_execute rt,
      validate_parameters = DefaultActionExecutor_validate_parameters\<rparr>"

record engine =
  action_executor :: ActionExecutor
  execution_history :: "ExecutionPlan list"

definition new_engine :: "ActionExecutor \<Rightarrow> engine" where
  "new_engine ex = \<lparr>action_executor = ex, execution_history = []\<rparr>"

text \<open>
  \<open>create_execution_plan\<close>; \<open>stamp\<close> is the clock reading
  \<open>datetime.now().strftime('%Y%m%d_%H%M%S')\<close>. The engine is returned as it was given.
\<close>

definition create_execution_plan ::
  "string \<Rightarrow> engine \<Rightarrow> string \<Rightarrow> rule list \<Rightarrow> pyval \<Rightarrow> ExecutionPlan \<times> engine" where
  "create_execution_plan stamp eng scen rs ctx =
     (\<lparr>plan_id = ''plan_'' @ stamp @ ''_'' @ str_nat (length (execution_history eng)),
       scenario = scen,
       rules = rs,
       plan_context = ctx,
       execution_results = [],
       overall_status = PENDING\<rparr>,
      eng)"

text \<open>The \<open>except Exception\<close> branch of \<open>_execute_single_rule\<close>.\<close>

definition rule_exception :: "ExecutionResult \<Rightarrow> exn \<Rightarrow> ExecutionResult" where
  "rule_exception result e =
     result\<lparr>status := FAILED,
            error_message := Some (PStr (str_exn e)),
            execution_logs := execution_logs result @ [''Exception during execution: '' @ str_exn e]\<rparr>"

definition execute_single_rule ::
  "runtime \<Rightarrow> ActionExecutor \<Rightarrow> rule \<Rightarrow> pyval \<Rightarrow> ExecutionResult" where
  "execute_single_rule rt ex r ctx =
     (let result = \<lparr>rule_id = key_id r, rule_name = key_name r, status = RUNNING,
                     result_output = PDict [], error_message = None, execution_logs = []\<rparr>;
          parameters = (case key_parameters r of Some p \<Rightarrow> p | None \<Rightarrow> PDict [])
      in case validate_parameters ex (key_action r) parameters of
           Inl e \<Rightarrow> rule_exception result e
         | Inr valid \<Rightarrow>
             if \<not> valid then
               result\<lparr>status := FAILED,
                      error_message := Some (PStr ''Parameter validation failed'')\<rparr>
             else
               (let result1 = result\<lparr>execution_logs := execution_logs result @
                       [''Starting execution of rule '' @ key_id r @ '': '' @ key_name r]\<rparr>
                in case execute ex (key_action r) parameters ctx of
                     Inl e \<Rightarrow> rule_exception result1 e
                   | Inr execution_output \<Rightarrow>
                       (let result2 = result1\<lparr>result_output := execution_output\<rparr>
                        in case py_get execution_output ''success'' (PBool False) of
                             Inl e \<Rightarrow> rule_exception result2 e
                           | Inr success \<Rightarrow>
                               if py_truthy success then
                                 (case py_get execution_output ''action_taken'' (PStr ''Unknown'') of
                                    Inl e \<Rightarrow> rule_exception (result2\<lparr>status := COMPLETED\<rparr>) e
                                  | Inr taken \<Rightarrow>
                                      result2\<lparr>status := COMPLETED,
                                              execution_logs := execution_logs result2 @
                                                [''Rule executed successfully: '' @ py_str rt taken]\<rparr>)
                               else
                                 (case py_get execution_output ''error'' (PStr ''Unknown error'') of
                                    Inl e \<Rightarrow> rule_exception (result2\<lparr>status := FAILED\<rparr>) e
                                  | Inr err \<Rightarrow>
                                      result2\<lparr>status := FAILED,
                                              error_message := Some err,
                                              execution_logs := execution_logs result2 @
                                                [''Rule execution failed: '' @ py_str rt err]\<rparr>))))"

text \<open>
  The loop of \<open>execute_plan\<close>. Each result is appended to the plan's list before the
  priority of a failed rule is looked at, so the list is returned also when that
  comparison raises; the exception, if any, is the second component.
\<close>

fun run_rules ::
  "runtime \<Rightarrow> ActionExecutor \<Rightarrow> pyval \<Rightarrow> rule list \<Rightarrow> ExecutionResult list
     \<Rightarrow> ExecutionResult list \<times> exn option" where
  "run_rules rt ex ctx [] results = (results, None)"
| "run_rules rt ex ctx (r # rest) results =
     (let result = execute_single_rule rt ex r ctx;
          results1 = results @ [result]
      in if status result = FAILED then
           (case py_ge_int (case key_priority r of Some p \<Rightarrow> p | None \<Rightarrow> PInt 1) 3 of
              Inl e \<Rightarrow> (results1, Some e)
            | Inr critical \<Rightarrow> run_rules rt ex ctx rest results1)
         else run_rules rt ex ctx rest results1)"

text \<open>
  \<open>any(rule["priority"] >= 3 for rule in plan.rules if rule["id"] == r.rule_id)\<close>:
  the rules are scanned in order up to the first critical one.
\<close>

fun any_critical :: "rule list \<Rightarrow> string \<Rightarrow> exn + bool" where
  "any_critical [] rid = Inr False"
| "any_critical (r # rest) rid =
     (if key_id r = rid then
        (case key_priority r of
           None \<Rightarrow> Inl (KeyError ''priority'')
         | Some p \<Rightarrow>
             (case py_ge_int p 3 of
                Inl e \<Rightarrow> Inl e
              | Inr critical \<Rightarrow> if critical then Inr True else any_critical rest rid))
      else any_critical rest rid)"

fun critical_failures :: "rule list \<Rightarrow> ExecutionResult list \<Rightarrow> exn + ExecutionResult list" where
  "critical_failures rs [] = Inr []"
| "critical_failures rs (r # failed) =
     (case any_critical rs (rule_id r) of
        Inl e \<Rightarrow> Inl e
      | Inr critical \<Rightarrow>
          (case critical_failures rs failed of
             Inl e \<Rightarrow> Inl e
           | Inr cs \<Rightarrow> Inr (if critical then r # cs else cs)))"

text \<open>"Determine overall status": the lines after the loop, still inside the \<open>try\<close>.\<close>

definition determine_overall_status :: "rule list \<Rightarrow> ExecutionResult list \<Rightarrow> exn + ExecutionStatus" where
  "determine_overall_status rs results =
     (let failed_results = filter (\<lambda>r. status r = FAILED) results
      in if failed_results \<noteq> [] then
           (case critical_failures rs failed_results of
              Inl e \<Rightarrow> Inl e
            | Inr cs \<Rightarrow> Inr (if cs \<noteq> [] then FAILED else COMPLETED))
         else Inr COMPLETED)"

text \<open>
  \<open>execute_plan\<close>: an exception of the loop or of the status computation is caught and
  makes the plan \<open>FAILED\<close>; the plan is appended to the history in the \<open>finally\<close> block.
  The history holds the plan objects themselves; the model records each plan as it is when
  appended.
\<close>

definition execute_plan :: "runtime \<Rightarrow> engine \<Rightarrow> ExecutionPlan \<Rightarrow> ExecutionPlan \<times> engine" where
  "execute_plan rt eng plan =
     (let (results, raised) =
            run_rules rt (action_executor eng) (plan_context plan) (rules plan) (execution_results plan);
          st = (case raised of
                  Some e \<Rightarrow> FAILED
                | None \<Rightarrow>
                    (case determine_overall_status (rules plan) results of
                       Inl e \<Rightarrow> FAILED
                     | Inr s \<Rightarrow> s));
          plan1 = plan\<lparr>execution_results := results, overall_status := st\<rparr>
      in (plan1, eng\<lparr>execution_history := execution_history eng @ [plan1]\<rparr>))"

text \<open>A sequence of \<open>execute_plan\<close> calls on one engine.\<close>

fun execute_plans :: "runtime \<Rightarrow> engine \<Rightarrow> ExecutionPlan list \<Rightarrow> engine" where
  "execute_plans rt eng [] = eng"
| "execute_plans rt eng (p # ps) = execute_plans rt (snd (execute_plan rt eng p)) ps"

text \<open>
  \<open>get_execution_summary\<close>, without the two timings (\<open>execution_time\<close>, \<open>duration\<close>).
  \<open>summary_message\<close> is the key \<open>message\<close>, which only the summary of a skipped execution
  has.
\<close>

record result_summary =
  summary_rule_id :: string
  summary_rule_name :: string
  summary_status :: string
  summary_output :: pyval
  summary_error :: "pyval option"

record execution_summary =
  summary_plan_id :: string
  summary_scenario :: string
  summary_overall_status :: string
  total_rules :: nat
  successful_rules :: nat
  failed_rules :: nat
  summary_results :: "result_summary list"
  summary_message :: "string option"

definition get_execution_summary :: "ExecutionPlan \<Rightarrow> execution_summary" where
  "get_execution_summary plan =
     (let successful = filter (\<lambda>r. status r = COMPLETED) (execution_results plan);
          failed = filter (\<lambda>r. status r = FAILED) (execution_results plan)
      in \<lparr>summary_plan_id = plan_id plan,
          summary_scenario = scenario plan,
          summary_overall_status = status_value (overall_status plan),
          total_rules = length (rules plan),
          successful_rules = length successful,
          failed_rules = length failed,
          summary_results = map (\<lambda>r. \<lparr>summary_rule_id = rule_id r,
                                        summary_rule_name = rule_name r,
                                        summary_status = status_value (status r),
                                        summary_output = result_output r,
                                        summary_error = error_message r\<rparr>) (execution_results plan),
          summary_message = None\<rparr>)"

definition get_execution_history :: "engine \<Rightarrow> execution_summary list" where
  "get_execution_history eng = map get_execution_summary (execution_history eng)"

section \<open>The decision pipeline\<close>

subsection \<open>Strings\<close>

text \<open>\<open>str.lower\<close> on ASCII letters, \<open>sub in s\<close>, and \<open>sep.join(parts)\<close>.\<close>

definition lower_char :: "char \<Rightarrow> char" where
  "lower_char c =
     (if 65 \<le> (of_char c :: nat) \<and> (of_char c :: nat) \<le> 90 then char_of ((of_char c :: nat) + 32) else c)"

definition lower :: "string \<Rightarrow> string" where
  "lower s = map lower_char s"

fun py_in :: "string \<Rightarrow> string \<Rightarrow> bool" where
  "py_in sub [] = (sub = [])"
| "py_in sub (c # cs) = (take (length sub) (c # cs) = sub \<or> py_in sub cs)"

fun join :: "string \<Rightarrow> string list \<Rightarrow> string" where
  "join sep [] = []"
| "join sep [x] = x"
| "join sep (x # y # ys) = x @ sep @ join sep (y # ys)"

subsection \<open>Data\<close>

record SearchResult =
  sr_rule_id :: string
  score :: real
  content :: string
  sr_metadata :: "(string \<times> pyval) list"

record BusinessRule =
  br_id :: string
  br_name :: string
  br_description :: string
  br_domain :: string
  br_category :: string
  br_condition :: string
  br_action :: string
  br_priority :: int
  br_parameters :: pyval
  br_metadata :: pyval

text \<open>
  The parsed answers of the reasoning provider. A key the code reads with \<open>.get\<close> may be
  absent (\<open>None\<close>); \<open>rule_id\<close>, read with \<open>[...]\<close>, raises \<open>KeyError\<close> when absent. The
  ordering answer comes from \<open>json.loads\<close> unchecked: the value under \<open>executable_rules\<close>
  is any value, and so is each of its entries; \<open>exec_rule\<close> is an entry that is a
  dictionary, read through the four keys below.
\<close>

record rule_ref =
  ref_rule_id :: "string option"
  ref_confidence :: "real option"
  ref_reasoning :: "string option"

record analysis =
  analysis_error :: "string option"
  analysis_applicable_rules :: "rule_ref list option"
  overall_assessment :: "string option"
  recommended_actions :: "string list option"

type_synonym exec_rule = "(string \<times> pyval) list"

definition exec_rule_id :: "exec_rule \<Rightarrow> pyval option" where
  "exec_rule_id e = map_of e ''rule_id''"

definition exec_execution_order :: "exec_rule \<Rightarrow> pyval option" where
  "exec_execution_order e = map_of e ''execution_order''"

definition exec_condition_met :: "exec_rule \<Rightarrow> pyval option" where
  "exec_condition_met e = map_of e ''condition_met''"

definition exec_expected_outcome :: "exec_rule \<Rightarrow> pyval option" where
  "exec_expected_outcome e = map_of e ''expected_outcome''"

record reasoning_result =
  executable_rules :: "pyval option"

text \<open>The retrieval service and the reasoning provider; every call may raise.\<close>

record collaborators =
  query_rules :: "string \<Rightarrow> nat \<Rightarrow> string option \<Rightarrow> string option \<Rightarrow> real \<Rightarrow> exn + SearchResult list"
  get_rule_by_id :: "string \<Rightarrow> exn + BusinessRule option"
  llm_analyze_scenario :: "string \<Rightarrow> pyval list \<Rightarrow> pyval option \<Rightarrow> exn + analysis"
  reason_about_rules :: "rule list \<Rightarrow> pyval \<Rightarrow> exn + reasoning_result"
  generate_explanation :: "rule list \<Rightarrow> string \<Rightarrow> pyval \<Rightarrow> exn + string"

text \<open>
  The states \<open>COMPLETED\<close> and \<open>ERROR\<close> of the agent carry the prefix \<open>AGENT_\<close>, the
  execution status having a \<open>COMPLETED\<close> of its own.
\<close>

datatype AgentState =
    IDLE | ANALYZING | QUERYING_RULES | REASONING | DECIDING | EXPLAINING
  | AGENT_COMPLETED | AGENT_ERROR

record execution_step =
  step :: nat
  step_rule_id :: string
  step_rule_name :: string
  step_action :: string
  step_expected_outcome :: pyval
  step_parameters :: pyval

record decision_metadata =
  metadata_error :: "string option"
  total_rules_considered :: nat
  rules_above_threshold :: nat
  metadata_overall_assessment :: string
  metadata_recommended_actions :: "string list"
  context_provided :: bool
  agent_iterations :: nat

record AgentDecision =
  decision_scenario :: string
  applicable_rules :: "rule list"
  decision_outcome :: string
  confidence :: real
  reasoning :: string
  execution_plan :: "execution_step list"
  metadata :: decision_metadata

record agent =
  confidence_threshold :: real
  max_iterations :: nat
  state :: AgentState
  current_scenario :: "string option"
  iteration_count :: nat
  decision_history :: "AgentDecision list"

subsection \<open>Retrieval\<close>

definition enhance_query :: "string \<Rightarrow> string option \<Rightarrow> string option \<Rightarrow> string" where
  "enhance_query scen domain_hint category_hint =
     (let scenario_lower = lower scen;
          mentions = (\<lambda>terms. list_ex (\<lambda>t. py_in t scenario_lower) terms)
      in join '' ''
           ([scen]
            @ (case domain_hint of Some d \<Rightarrow> (if d \<noteq> [] then [''domain:'' @ d] else []) | None \<Rightarrow> [])
            @ (case category_hint of Some c \<Rightarrow> (if c \<noteq> [] then [''category:'' @ c] else []) | None \<Rightarrow> [])
            @ (if mentions [''loan'', ''credit'', ''finance'', ''money'', ''payment'']
               then [''financial business rules''] else [])
            @ (if mentions [''inventory'', ''stock'', ''product'', ''warehouse'']
               then [''inventory management rules''] else [])
            @ (if mentions [''customer'', ''support'', ''service'', ''ticket'']
               then [''customer service rules''] else [])
            @ (if mentions [''data'', ''privacy'', ''compliance'', ''gdpr'', ''regulation'']
               then [''compliance regulatory rules''] else [])))"

text \<open>\<open>_query_relevant_rules\<close>: any exception of the retrieval gives the empty list.\<close>

definition query_relevant_rules ::
  "collaborators \<Rightarrow> agent \<Rightarrow> string \<Rightarrow> string option \<Rightarrow> string option \<Rightarrow> SearchResult list" where
  "query_relevant_rules co ag scen domain_hint category_hint =
     (case query_rules co (enhance_query scen domain_hint category_hint) 10 domain_hint
             category_hint (confidence_threshold ag * (8 / 10)) of
        Inl e \<Rightarrow> []
      | Inr results \<Rightarrow> results)"

subsection \<open>Analysis by the reasoning provider\<close>

definition dict_item :: "(string \<times> pyval) list \<Rightarrow> string \<Rightarrow> exn + pyval" where
  "dict_item d k = (case map_of d k of Some v \<Rightarrow> Inr v | None \<Rightarrow> Inl (KeyError k))"

text \<open>A list comprehension whose element expression may raise: the first raise ends it.\<close>

fun map_exn :: "('a \<Rightarrow> exn + 'b) \<Rightarrow> 'a list \<Rightarrow> exn + 'b list" where
  "map_exn f [] = Inr []"
| "map_exn f (x # xs) =
     (case f x of
        Inl e \<Rightarrow> Inl e
      | Inr y \<Rightarrow> (case map_exn f xs of Inl e \<Rightarrow> Inl e | Inr ys \<Rightarrow> Inr (y # ys)))"

definition rule_data :: "SearchResult \<Rightarrow> exn + pyval" where
  "rule_data r =
     (case map_exn (\<lambda>k. case dict_item (sr_metadata r) k of Inl e \<Rightarrow> Inl e | Inr v \<Rightarrow> Inr (k, v))
             [''name'', ''description'', ''domain'', ''category'', ''condition'', ''action'',
              ''priority'', ''parameters''] of
        Inl e \<Rightarrow> Inl e
      | Inr items \<Rightarrow>
          Inr (PDict ((''id'', PStr (sr_rule_id r)) # items @ [(''similarity_score'', PFloat (score r))])))"

definition failed_analysis :: analysis where
  "failed_analysis =
     \<lparr>analysis_error = None, analysis_applicable_rules = Some [],
      overall_assessment = Some ''Analysis failed'', recommended_actions = Some []\<rparr>"

definition analyze_with_llm ::
  "collaborators \<Rightarrow> string \<Rightarrow> SearchResult list \<Rightarrow> pyval option \<Rightarrow> exn + analysis" where
  "analyze_with_llm co scen rs ctx =
     bind_exn (map_exn rule_data rs) (\<lambda>rules_data.
     bind_exn (llm_analyze_scenario co scen rules_data ctx) (\<lambda>a.
     if analysis_error a \<noteq> None then Inr failed_analysis else Inr a))"

subsection \<open>The executable rules\<close>

definition get_applicable_rules :: "analysis \<Rightarrow> rule_ref list" where
  "get_applicable_rules a = (case analysis_applicable_rules a of Some rs \<Rightarrow> rs | None \<Rightarrow> [])"

definition get_confidence :: "rule_ref \<Rightarrow> real" where
  "get_confidence r = (case ref_confidence r of Some c \<Rightarrow> c | None \<Rightarrow> 0)"

text \<open>
  One pass of the loop that resolves a reference in the catalogue; a reference whose
  rule is not found is left out.
\<close>

definition resolve_rule :: "collaborators \<Rightarrow> rule_ref \<Rightarrow> exn + rule list" where
  "resolve_rule co rule_ref =
     (case ref_rule_id rule_ref of
        None \<Rightarrow> Inl (KeyError ''rule_id'')
      | Some rid \<Rightarrow>
          bind_exn (get_rule_by_id co rid) (\<lambda>found.
            case found of
              None \<Rightarrow> Inr []
            | Some full_rule \<Rightarrow>
                Inr [\<lparr>key_id = br_id full_rule,
                      key_name = br_name full_rule,
                      key_description = Some (br_description full_rule),
                      key_condition = Some (br_condition full_rule),
                      key_action = br_action full_rule,
                      key_priority = Some (PInt (br_priority full_rule)),
                      key_parameters = Some (br_parameters full_rule),
                      key_confidence = Some (get_confidence rule_ref),
                      key_reasoning = Some (case ref_reasoning rule_ref of Some t \<Rightarrow> t | None \<Rightarrow> ''''),
                      key_execution_order = None,
                      key_expected_outcome = None\<rparr>]))"

definition resolve_rules :: "collaborators \<Rightarrow> rule_ref list \<Rightarrow> exn + rule list" where
  "resolve_rules co refs = bind_exn (map_exn (resolve_rule co) refs) (\<lambda>rss. Inr (concat rss))"

text \<open>
  \<open>next((r for r in full_rules if r["id"] == rid), None)\<close>, as the position of the
  dictionary found: \<open>final_rules\<close> holds the dictionaries of \<open>full_rules\<close> themselves, which
  \<open>update\<close> changes in place, so the model keeps \<open>full_rules\<close> as the store and
  \<open>final_rules\<close> as a list of positions in it.
\<close>

fun find_rule :: "rule list \<Rightarrow> pyval \<Rightarrow> nat option" where
  "find_rule [] rid = None"
| "find_rule (r # rs) rid =
     (if PStr (key_id r) = rid then Some 0 else map_option Suc (find_rule rs rid))"

text \<open>\<open>x.get("execution_order", 0)\<close>, the key of the sort.\<close>

definition get_execution_order :: "rule \<Rightarrow> pyval" where
  "get_execution_order r = (case key_execution_order r of Some v \<Rightarrow> v | None \<Rightarrow> PInt 0)"

definition update_rule :: "exec_rule \<Rightarrow> rule \<Rightarrow> rule" where
  "update_rule e r =
     r\<lparr>key_execution_order := Some (case exec_execution_order e of Some v \<Rightarrow> v | None \<Rightarrow> PInt 0),
       key_expected_outcome := Some (case exec_expected_outcome e of Some v \<Rightarrow> v | None \<Rightarrow> PStr '''')\<rparr>"

text \<open>\<open>if exec_rule.get("condition_met", False)\<close>: the truth value of whatever the key holds.\<close>

definition condition_met :: "exec_rule \<Rightarrow> bool" where
  "condition_met e = (case exec_condition_met e of Some v \<Rightarrow> py_truthy v | None \<Rightarrow> False)"

text \<open>
  The merge loop. The first thing evaluated on an entry is \<open>exec_rule.get\<close>, which raises
  \<open>AttributeError\<close> on an entry that is no dictionary. \<open>exec_rule["rule_id"]\<close> is
  evaluated once per element of \<open>full_rules\<close> until a match, so a missing key raises only
  when \<open>full_rules\<close> is not empty.
\<close>

fun merge_loop :: "pyval list \<Rightarrow> rule list \<Rightarrow> nat list \<Rightarrow> exn + rule list \<times> nat list" where
  "merge_loop [] full_rules final_rules = Inr (full_rules, final_rules)"
| "merge_loop (PDict e # es) full_rules final_rules =
     (if condition_met e then
        (if full_rules = [] then merge_loop es full_rules final_rules
         else
           (case exec_rule_id e of
              None \<Rightarrow> Inl (KeyError ''rule_id'')
            | Some rid \<Rightarrow>
                (case find_rule full_rules rid of
                   None \<Rightarrow> merge_loop es full_rules final_rules
                 | Some i \<Rightarrow>
                     merge_loop es (full_rules[i := update_rule e (full_rules ! i)])
                       (final_rules @ [i]))))
      else merge_loop es full_rules final_rules)"
| "merge_loop (v # es) full_rules final_rules =
     Inl (AttributeError (quote (type_name v) @ '' object has no attribute '' @ quote ''get''))"

text \<open>
  "Merge reasoning results back with full rule data" and "Sort by execution order":
  the loop over the value of \<open>executable_rules\<close>, and the sort, which reads its keys from
  the dictionaries as the loop has left them.
\<close>

definition merge_reasoning_results :: "pyval \<Rightarrow> rule list \<Rightarrow> exn + rule list" where
  "merge_reasoning_results executable full_rules =
     bind_exn (py_iter executable) (\<lambda>execs.
     bind_exn (merge_loop execs full_rules []) (\<lambda>(store, final_rules).
     bind_exn (py_sort_key (\<lambda>i. get_execution_order (store ! i)) final_rules) (\<lambda>sorted_rules.
       Inr (map (\<lambda>i. store ! i) sorted_rules))))"

definition determine_executable_rules ::
  "collaborators \<Rightarrow> agent \<Rightarrow> analysis \<Rightarrow> pyval \<Rightarrow> exn + rule list" where
  "determine_executable_rules co ag analysis_result ctx =
     (let high_confidence_rules =
            filter (\<lambda>r. confidence_threshold ag \<le> get_confidence r) (get_applicable_rules analysis_result)
      in if high_confidence_rules = [] then Inr []
         else
           bind_exn (resolve_rules co high_confidence_rules) (\<lambda>full_rules.
           bind_exn (reason_about_rules co full_rules ctx) (\<lambda>reasoning_result.
           merge_reasoning_results
             (case executable_rules reasoning_result of Some v \<Rightarrow> v | None \<Rightarrow> PList [])
             full_rules)))"

subsection \<open>Explanation and decision\<close>

definition context_or_empty :: "pyval option \<Rightarrow> pyval" where
  "context_or_empty ctx = (case ctx of Some c \<Rightarrow> (if py_truthy c then c else PDict []) | None \<Rightarrow> PDict [])"

definition generate_explanation_for ::
  "collaborators \<Rightarrow> rule list \<Rightarrow> string \<Rightarrow> pyval option \<Rightarrow> exn + string" where
  "generate_explanation_for co executable scen ctx =
     (if executable = [] then Inr ''No applicable business rules were found for this scenario.''
      else generate_explanation co executable (join '' and '' (map key_action executable))
             (context_or_empty ctx))"

definition rule_confidence :: "rule \<Rightarrow> real" where
  "rule_confidence r = (case key_confidence r of Some c \<Rightarrow> c | None \<Rightarrow> 0)"

fun execution_steps :: "nat \<Rightarrow> rule list \<Rightarrow> exn + execution_step list" where
  "execution_steps i [] = Inr []"
| "execution_steps i (r # rs) =
     (case key_parameters r of
        None \<Rightarrow> Inl (KeyError ''parameters'')
      | Some p \<Rightarrow>
          (case execution_steps (Suc i) rs of
             Inl e \<Rightarrow> Inl e
           | Inr steps \<Rightarrow>
               Inr (\<lparr>step = i + 1,
                     step_rule_id = key_id r,
                     step_rule_name = key_name r,
                     step_action = key_action r,
                     step_expected_outcome = (case key_expected_outcome r of Some v \<Rightarrow> v | None \<Rightarrow> PStr ''''),
                     step_parameters = p\<rparr> # steps)))"

definition create_decision ::
  "agent \<Rightarrow> string \<Rightarrow> rule list \<Rightarrow> analysis \<Rightarrow> string \<Rightarrow> pyval option \<Rightarrow> exn + AgentDecision" where
  "create_decision ag scen executable analysis_result explanation ctx =
     (let overall_confidence =
            (if executable \<noteq> []
             then sum_list (map rule_confidence executable) / real (length executable)
             else 0)
      in bind_exn (execution_steps 0 executable) (\<lambda>steps.
         Inr \<lparr>decision_scenario = scen,
              applicable_rules = executable,
              decision_outcome =
                (if executable \<noteq> []
                 then ''Execute '' @ str_nat (length executable) @ '' rule(s): ''
                        @ join '', '' (map key_action executable)
                 else ''No rules to execute''),
              confidence = overall_confidence,
              reasoning = explanation,
              execution_plan = steps,
              metadata =
                \<lparr>metadata_error = None,
                 total_rules_considered = length (get_applicable_rules analysis_result),
                 rules_above_threshold = length executable,
                 metadata_overall_assessment =
                   (case overall_assessment analysis_result of Some t \<Rightarrow> t | None \<Rightarrow> ''''),
                 metadata_recommended_actions =
                   (case recommended_actions analysis_result of Some ts \<Rightarrow> ts | None \<Rightarrow> []),
                 context_provided = (ctx \<noteq> None),
                 agent_iterations = iteration_count ag\<rparr>\<rparr>))"

definition create_no_rules_decision :: "string \<Rightarrow> AgentDecision" where
  "create_no_rules_decision scen =
     \<lparr>decision_scenario = scen,
      applicable_rules = [],
      decision_outcome = ''No applicable business rules found'',
      confidence = 0,
      reasoning = ''The RAG system did not find any business rules relevant to this scenario. This could indicate that the scenario is outside the scope of current rule coverage, or the scenario description needs to be more specific.'',
      execution_plan = [],
      metadata =
        \<lparr>metadata_error = None,
         total_rules_considered = 0,
         rules_above_threshold = 0,
         metadata_overall_assessment = ''No rules found'',
         metadata_recommended_actions =
           [''Review scenario description'', ''Check rule coverage'', ''Consider adding new rules''],
         context_provided = False,
         agent_iterations = 0\<rparr>\<rparr>"

definition create_error_decision :: "agent \<Rightarrow> string \<Rightarrow> string \<Rightarrow> AgentDecision" where
  "create_error_decision ag scen error_message_text =
     \<lparr>decision_scenario = scen,
      applicable_rules = [],
      decision_outcome = ''Analysis failed: '' @ error_message_text,
      confidence = 0,
      reasoning = ''An error occurred during analysis: '' @ error_message_text,
      execution_plan = [],
      metadata =
        \<lparr>metadata_error = Some error_message_text,
         total_rules_considered = 0,
         rules_above_threshold = 0,
         metadata_overall_assessment = ''Error occurred'',
         metadata_recommended_actions = [''Check system logs'', ''Verify system components''],
         context_provided = False,
         agent_iterations = iteration_count ag\<rparr>\<rparr>"

subsection \<open>\<open>analyze_scenario\<close>\<close>

text \<open>
  The body of the \<open>try\<close> block: the decision and the agent as the body leaves it, or the
  exception that leaves the body.
\<close>

definition analysis_steps ::
  "collaborators \<Rightarrow> agent \<Rightarrow> string \<Rightarrow> pyval option \<Rightarrow> string option \<Rightarrow> string option
     \<Rightarrow> exn + AgentDecision \<times> agent" where
  "analysis_steps co ag scen ctx domain_hint category_hint =
     (let relevant_rules = query_relevant_rules co ag scen domain_hint category_hint
      in if relevant_rules = [] then
           Inr (create_no_rules_decision scen, ag\<lparr>state := QUERYING_RULES\<rparr>)
         else
           bind_exn (analyze_with_llm co scen relevant_rules ctx) (\<lambda>analysis_result.
           bind_exn (determine_executable_rules co ag analysis_result (context_or_empty ctx))
             (\<lambda>executable.
           bind_exn (generate_explanation_for co executable scen ctx) (\<lambda>explanation.
           bind_exn (create_decision ag scen executable analysis_result explanation ctx)
             (\<lambda>decision.
           Inr (decision,
                ag\<lparr>state := AGENT_COMPLETED,
                   decision_history := decision_history ag @ [decision]\<rparr>))))))"

text \<open>
  \<open>analyze_scenario\<close>: the three assignments before the \<open>try\<close>, the body, and the
  \<open>except Exception\<close> handler. Like every call it either returns (\<open>Inr\<close>) or raises
  (\<open>Inl\<close>).
\<close>

definition analyze_scenario ::
  "collaborators \<Rightarrow> agent \<Rightarrow> string \<Rightarrow> pyval option \<Rightarrow> string option \<Rightarrow> string option
     \<Rightarrow> exn + AgentDecision \<times> agent" where
  "analyze_scenario co ag scen ctx domain_hint category_hint =
     (let ag0 = ag\<lparr>state := ANALYZING, current_scenario := Some scen, iteration_count := 0\<rparr>
      in case analysis_steps co ag0 scen ctx domain_hint category_hint of
           Inr (decision, ag1) \<Rightarrow> Inr (decision, ag1)
         | Inl e \<Rightarrow> Inr (create_error_decision ag0 scen (str_exn e), ag0\<lparr>state := AGENT_ERROR\<rparr>))"

section \<open>The service layer\<close>

text \<open>
  \<open>AgenticSystemService\<close>. Its coroutines are modelled as the sequential functions they
  are when one call runs alone; the off-loading to a worker thread changes no value.
  \<open>analyze_scenario\<close> returns the decision's seven fields as a dictionary, modelled by the
  decision itself.
\<close>

record service =
  initialized :: bool
  service_agent :: agent
  execution_engine :: engine

record full_process_response =
  response_scenario :: string
  response_analysis :: AgentDecision
  response_execution :: execution_summary

definition service_analyze_scenario ::
  "collaborators \<Rightarrow> service \<Rightarrow> string \<Rightarrow> pyval option \<Rightarrow> string option \<Rightarrow> string option
     \<Rightarrow> exn + AgentDecision \<times> service" where
  "service_analyze_scenario co svc scen ctx domain_hint category_hint =
     (if \<not> initialized svc then Inl (RuntimeError ''System not initialized'')
      else
        bind_exn (analyze_scenario co (service_agent svc) scen ctx domain_hint category_hint)
          (\<lambda>(decision, ag). Inr (decision, svc\<lparr>service_agent := ag\<rparr>)))"

definition service_execute_rules ::
  "runtime \<Rightarrow> string \<Rightarrow> service \<Rightarrow> string \<Rightarrow> rule list \<Rightarrow> pyval \<Rightarrow> exn + execution_summary \<times> service" where
  "service_execute_rules rt stamp svc scen rs ctx =
     (if \<not> initialized svc then Inl (RuntimeError ''System not initialized'')
      else
        (let (plan, eng1) = create_execution_plan stamp (execution_engine svc) scen rs ctx;
             (executed_plan, eng2) = execute_plan rt eng1 plan
         in Inr (get_execution_summary executed_plan, svc\<lparr>execution_engine := eng2\<rparr>)))"

text \<open>The summary \<open>analyze_and_execute\<close> writes itself when no rule applies.\<close>

definition skipped_execution :: "string \<Rightarrow> execution_summary" where
  "skipped_execution scen =
     \<lparr>summary_plan_id = ''no_execution'',
      summary_scenario = scen,
      summary_overall_status = ''skipped'',
      total_rules = 0,
      successful_rules = 0,
      failed_rules = 0,
      summary_results = [],
      summary_message = Some ''No applicable rules found''\<rparr>"

definition analyze_and_execute ::
  "runtime \<Rightarrow> string \<Rightarrow> collaborators \<Rightarrow> service \<Rightarrow> string \<Rightarrow> pyval option \<Rightarrow> string option
     \<Rightarrow> string option \<Rightarrow> exn + full_process_response \<times> service" where
  "analyze_and_execute rt stamp co svc scen ctx domain_hint category_hint =
     bind_exn (service_analyze_scenario co svc scen ctx domain_hint category_hint)
       (\<lambda>(analysis_result, svc1).
     bind_exn (if applicable_rules analysis_result \<noteq> []
               then service_execute_rules rt stamp svc1 scen (applicable_rules analysis_result)
                      (context_or_empty ctx)
               else Inr (skipped_execution scen, svc1))
       (\<lambda>(execution, svc2).
     Inr (\<lparr>response_scenario = scen,
           response_analysis = analysis_result,
           response_execution = execution\<rparr>, svc2)))"

section \<open>Statements of the specification, in its words\<close>

text \<open>A rule is critical when its priority is a number that is at least 3.\<close>

definition priority_at_least_3 :: "rule \<Rightarrow> bool" where
  "priority_at_least_3 r =
     (case key_priority r of
        Some p \<Rightarrow> (case num_like p of Some x \<Rightarrow> 3 \<le> x | None \<Rightarrow> False)
      | None \<Rightarrow> False)"

definition has_numeric_priority :: "rule \<Rightarrow> bool" where
  "has_numeric_priority r =
     (case key_priority r of Some p \<Rightarrow> num_like p \<noteq> None | None \<Rightarrow> False)"

text \<open>
  The rules an ordering answer keeps, each with the order and outcome of its entry:
  listed in the order of the provider's answer, and listed in retrieval order (the order
  of \<open>full_rules\<close>).
\<close>

definition kept_in_provider_order :: "exec_rule list \<Rightarrow> rule list \<Rightarrow> rule list" where
  "kept_in_provider_order execs full_rules =
     concat (map (\<lambda>e. if condition_met e then
                         (case exec_rule_id e of
                            Some rid \<Rightarrow> (case find_rule full_rules rid of
                                           Some i \<Rightarrow> [update_rule e (full_rules ! i)]
                                         | None \<Rightarrow> [])
                          | None \<Rightarrow> [])
                       else []) execs)"


text \<open>The execution order of a rule as a number, where it is one.\<close>

definition order_number :: "rule \<Rightarrow> real" where
  "order_number r = (case num_like (get_execution_order r) of Some x \<Rightarrow> x | None \<Rightarrow> 0)"



section \<open>Concrete inputs\<close>

definition example_runtime :: runtime where
  "example_runtime =
     \<lparr>isoformat_now = ''2024-01-01T00:00:00'',
      format_exc = (\<lambda>e. ''Traceback (most recent call last)''),
      repr = (\<lambda>v. ''<value>'')\<rparr>"

definition empty_plan :: ExecutionPlan where
  "empty_plan =
     \<lparr>plan_id = ''plan_20240101_120000_0'', scenario = ''s'', rules = [],
      plan_context = PDict [], execution_results = [], overall_status = PENDING\<rparr>"

definition plain_rule :: "string \<Rightarrow> string \<Rightarrow> string \<Rightarrow> pyval option \<Rightarrow> rule" where
  "plain_rule i n a p =
     \<lparr>key_id = i, key_name = n, key_description = None, key_condition = None,
      key_action = a, key_priority = p, key_parameters = None, key_confidence = None,
      key_reasoning = None, key_execution_order = None, key_expected_outcome = None\<rparr>"

text \<open>A plan of one rule that has no \<open>priority\<close> key and names an unregistered action.\<close>

definition advisory_plan :: ExecutionPlan where
  "advisory_plan =
     \<lparr>plan_id = ''plan_20240101_120000_0'', scenario = ''notify the customer'',
      rules = [plain_rule ''r1'' ''Advisory notice'' ''send_notice'' None],
      plan_context = PDict [], execution_results = [], overall_status = PENDING\<rparr>"

text \<open>An executor whose \<open>execute\<close> raises, and a plan whose first rule has \<open>priority = None\<close>.\<close>

definition crashing_executor :: ActionExecutor where
  "crashing_executor =
     \<lparr>execute = (\<lambda>a p c. Inl (RuntimeError ''connection lost'')),
      validate_parameters = (\<lambda>a p. Inr True)\<rparr>"

definition null_priority_plan :: ExecutionPlan where
  "null_priority_plan =
     \<lparr>plan_id = ''plan_20240101_120000_0'', scenario = ''charge and notify'',
      rules = [plain_rule ''r1'' ''Charge card'' ''charge_card'' (Some PNone),
               plain_rule ''r2'' ''Notify'' ''notify'' (Some (PInt 1))],
      plan_context = PDict [], execution_results = [], overall_status = PENDING\<rparr>"

text \<open>
  One catalogued rule, retrieved with score 0.9; the reasoning provider reports the
  confidence \<open>c\<close> for it and lists it as executable.
\<close>

definition loan_search_result :: SearchResult where
  "loan_search_result =
     \<lparr>sr_rule_id = ''finance_loan_001'', score = 9 / 10, content = ''Basic Credit Check'',
      sr_metadata = [
        (''name'', PStr ''Basic Credit Check''),
        (''description'', PStr ''Basic credit score validation''),
        (''domain'', PStr ''finance''),
        (''category'', PStr ''loan_approval''),
        (''condition'', PStr ''credit_score >= 650''),
        (''action'', PStr ''approve_basic_review''),
        (''priority'', PInt 2),
        (''parameters'', PDict [])]\<rparr>"

definition loan_rule :: BusinessRule where
  "loan_rule =
     \<lparr>br_id = ''finance_loan_001'', br_name = ''Basic Credit Check'',
      br_description = ''Basic credit score validation'', br_domain = ''finance'',
      br_category = ''loan_approval'', br_condition = ''credit_score >= 650'',
      br_action = ''approve_basic_review'', br_priority = 2, br_parameters = PDict [],
      br_metadata = PDict []\<rparr>"

definition loan_collaborators :: "rule_ref \<Rightarrow> collaborators" where
  "loan_collaborators reported =
     \<lparr>query_rules = (\<lambda>q k d c t. Inr [loan_search_result]),
      get_rule_by_id = (\<lambda>rid. Inr (if rid = ''finance_loan_001'' then Some loan_rule else None)),
      llm_analyze_scenario = (\<lambda>s rs ctx.
        Inr \<lparr>analysis_error = None, analysis_applicable_rules = Some [reported],
             overall_assessment = Some ''One rule applies'', recommended_actions = Some []\<rparr>),
      reason_about_rules = (\<lambda>rs ctx.
        Inr \<lparr>executable_rules = Some (PList [
               PDict [(''rule_id'', PStr ''finance_loan_001''),
                      (''execution_order'', PInt 1),
                      (''condition_met'', PBool True),
                      (''expected_outcome'', PStr ''Loan goes to basic review'')]])\<rparr>),
      generate_explanation = (\<lambda>rs outcome ctx. Inr ''The basic credit check applies.'')\<rparr>"

text \<open>An answer of the provider that names the rule, and one that leaves \<open>rule_id\<close> out.\<close>

definition reported :: "real \<Rightarrow> rule_ref" where
  "reported c =
     \<lparr>ref_rule_id = Some ''finance_loan_001'', ref_confidence = Some c,
      ref_reasoning = Some ''credit score above 650''\<rparr>"

definition unnamed_reference :: rule_ref where
  "unnamed_reference =
     \<lparr>ref_rule_id = None, ref_confidence = Some (9 / 10), ref_reasoning = Some ''applies''\<rparr>"

definition no_candidates :: collaborators where
  "no_candidates = (loan_collaborators (reported (9 / 10)))\<lparr>query_rules := (\<lambda>q k d c t. Inr [])\<rparr>"

text \<open>The same collaborators with a retrieval service that cannot be reached.\<close>

definition unreachable_retrieval :: collaborators where
  "unreachable_retrieval =
     (loan_collaborators (reported (9 / 10)))
       \<lparr>query_rules := (\<lambda>q k d c t. Inl (RuntimeError ''vector store unreachable''))\<rparr>"

text \<open>The dictionary the pipeline builds for the catalogued rule.\<close>

definition resolved_loan_rule :: "real \<Rightarrow> rule" where
  "resolved_loan_rule c =
     \<lparr>key_id = ''finance_loan_001'', key_name = ''Basic Credit Check'',
      key_description = Some ''Basic credit score validation'',
      key_condition = Some ''credit_score >= 650'',
      key_action = ''approve_basic_review'', key_priority = Some (PInt 2),
      key_parameters = Some (PDict []), key_confidence = Some c,
      key_reasoning = Some ''credit score above 650'', key_execution_order = Some (PInt 1),
      key_expected_outcome = Some (PStr ''Loan goes to basic review'')\<rparr>"

definition example_agent :: agent where
  "example_agent =
     \<lparr>confidence_threshold = 7 / 10, max_iterations = 10, state = IDLE,
      current_scenario = None, iteration_count = 0, decision_history = []\<rparr>"

definition example_service :: service where
  "example_service =
     \<lparr>initialized = True, service_agent = example_agent,
      execution_engine = new_engine (DefaultActionExecutor example_runtime)\<rparr>"

text \<open>
  Two resolved rules in retrieval order \<open>A\<close>, \<open>B\<close>, and an ordering answer that lists
  \<open>B\<close> before \<open>A\<close> with the same execution order.
\<close>

definition two_full_rules :: "rule list" where
  "two_full_rules =
     [plain_rule ''A'' ''Rule A'' ''instant_approve'' (Some (PInt 1)),
      plain_rule ''B'' ''Rule B'' ''require_collateral'' (Some (PInt 1))]"

definition tied_answer :: "exec_rule list" where
  "tied_answer =
     [[(''rule_id'', PStr ''B''), (''execution_order'', PInt 1),
       (''condition_met'', PBool True), (''expected_outcome'', PStr ''collateral'')],
      [(''rule_id'', PStr ''A''), (''execution_order'', PInt 1),
       (''condition_met'', PBool True), (''expected_outcome'', PStr ''approved'')]]"

text \<open>An ordering answer that lists rule \<open>A\<close> twice.\<close>

definition repeated_answer :: "exec_rule list" where
  "repeated_answer =
     [[(''rule_id'', PStr ''A''), (''execution_order'', PInt 5),
       (''condition_met'', PBool True), (''expected_outcome'', PStr ''late'')],
      [(''rule_id'', PStr ''A''), (''execution_order'', PInt 1),
       (''condition_met'', PBool True), (''expected_outcome'', PStr ''early'')],
      [(''rule_id'', PStr ''B''), (''execution_order'', PInt 3),
       (''condition_met'', PBool True), (''expected_outcome'', PStr ''collateral'')]]"

text \<open>
  An answer whose verdict for \<open>B\<close> is the string \<open>false\<close>, and one whose entries hold
  \<open>null\<close> as execution order.
\<close>

definition quoted_verdict_answer :: "exec_rule list" where
  "quoted_verdict_answer =
     [[(''rule_id'', PStr ''B''), (''execution_order'', PInt 1),
       (''condition_met'', PStr ''false''), (''expected_outcome'', PStr ''collateral'')]]"

definition null_order_answer :: "exec_rule list" where
  "null_order_answer =
     [[(''rule_id'', PStr ''A''), (''execution_order'', PNone),
       (''condition_met'', PBool True), (''expected_outcome'', PStr ''approved'')],
      [(''rule_id'', PStr ''B''), (''execution_order'', PNone),
       (''condition_met'', PBool True), (''expected_outcome'', PStr ''collateral'')]]"

section \<open>The default action executor: properties\<close>

lemma registry_names:
  "map fst (supported_actions rt) =
     [''approve_basic_review'', ''require_manual_review'', ''instant_approve'',
      ''require_collateral'', ''deny_access'', ''generate_low_stock_alert'',
      ''emergency_reorder'', ''block_reorder'', ''increase_reorder_quantity'',
      ''mark_for_clearance'', ''schedule_data_deletion'', ''request_consent_renewal'',
      ''execute_data_deletion'', ''enforce_encryption'', ''route_to_senior_agent'',
      ''escalate_to_technical_team'', ''route_to_global_team'',
      ''route_to_billing_specialist'']"
  by (simp add: supported_actions_def)

text \<open>
  Claim C7. For an action name that is not a key of the registry, whatever the
  parameters and the context, \<open>execute\<close> returns (it does not raise) the dictionary with
  \<open>success = False\<close>, the error \<open>Unsupported action: <name>\<close> and the list of the
  eighteen registered names in registration order.
\<close>

theorem unsupported_action:
  assumes "action \<notin> set (map fst (supported_actions rt))"
  shows "DefaultActionExecutor_execute rt action parameters context =
     Inr (PDict [
       (''success'', PBool False),
       (''error'', PStr (''Unsupported action: '' @ action)),
       (''supported_actions'', PList (map PStr
         [''approve_basic_review'', ''require_manual_review'', ''instant_approve'',
          ''require_collateral'', ''deny_access'', ''generate_low_stock_alert'',
          ''emergency_reorder'', ''block_reorder'', ''increase_reorder_quantity'',
          ''mark_for_clearance'', ''schedule_data_deletion'', ''request_consent_renewal'',
          ''execute_data_deletion'', ''enforce_encryption'', ''route_to_senior_agent'',
          ''escalate_to_technical_team'', ''route_to_global_team'',
          ''route_to_billing_specialist'']))])"
proof -
  from assms have none: "map_of (supported_actions rt) action = None"
    by (simp add: map_of_eq_None_iff)
  have names: "map (\<lambda>kv. PStr (fst kv)) (supported_actions rt)
                 = map PStr (map fst (supported_actions rt))"
    by simp
  show ?thesis
    unfolding DefaultActionExecutor_execute_def none names registry_names by simp
qed

theorem unsupported_action_witness:
  "''approve_loan'' \<notin> set (map fst (supported_actions example_runtime)) \<and>
   DefaultActionExecutor_execute example_runtime ''approve_loan'' (PDict []) PNone =
     Inr (PDict [
       (''success'', PBool False),
       (''error'', PStr ''Unsupported action: approve_loan''),
       (''supported_actions'', PList (map PStr
         [''approve_basic_review'', ''require_manual_review'', ''instant_approve'',
          ''require_collateral'', ''deny_access'', ''generate_low_stock_alert'',
          ''emergency_reorder'', ''block_reorder'', ''increase_reorder_quantity'',
          ''mark_for_clearance'', ''schedule_data_deletion'', ''request_consent_renewal'',
          ''execute_data_deletion'', ''enforce_encryption'', ''route_to_senior_agent'',
          ''escalate_to_technical_team'', ''route_to_global_team'',
          ''route_to_billing_specialist'']))])"
proof -
  have h: "''approve_loan'' \<notin> set (map fst (supported_actions example_runtime))"
    unfolding registry_names by simp
  from unsupported_action [OF h, of "PDict []" PNone] h show ?thesis by simp
qed

text \<open>Every registered handler that returns, returns a dictionary.\<close>

lemma handlers_return_mapping:
  assumes "map_of (supported_actions rt) action = Some h" and "h parameters context = Inr out"
  shows "\<exists>d. out = PDict d"
proof -
  from assms(1) have "(action, h) \<in> set (supported_actions rt)" by (rule map_of_SomeD)
  then have "h \<in> snd ` set (supported_actions rt)" by force
  then consider
      "h = approve_basic_review rt" | "h = require_manual_review rt" | "h = instant_approve rt"
    | "h = require_collateral rt" | "h = deny_access rt" | "h = generate_low_stock_alert rt"
    | "h = emergency_reorder rt" | "h = block_reorder rt" | "h = increase_reorder_quantity rt"
    | "h = mark_for_clearance rt" | "h = schedule_data_deletion rt"
    | "h = request_consent_renewal rt" | "h = execute_data_deletion rt"
    | "h = enforce_encryption rt" | "h = route_to_senior_agent rt"
    | "h = escalate_to_technical_team rt" | "h = route_to_global_team rt"
    | "h = route_to_billing_specialist rt"
    unfolding supported_actions_def by auto
  then show ?thesis
  proof cases
    case 1 with assms(2) show ?thesis by (auto simp: approve_basic_review_def bind_exn_def split: sum.splits)
  next
    case 2 with assms(2) show ?thesis by (auto simp: require_manual_review_def bind_exn_def split: sum.splits)
  next
    case 3 with assms(2) show ?thesis by (auto simp: instant_approve_def bind_exn_def split: sum.splits)
  next
    case 4 with assms(2) show ?thesis by (auto simp: require_collateral_def bind_exn_def split: sum.splits)
  next
    case 5 with assms(2) show ?thesis by (auto simp: deny_access_def bind_exn_def split: sum.splits)
  next
    case 6 with assms(2) show ?thesis by (auto simp: generate_low_stock_alert_def bind_exn_def split: sum.splits)
  next
    case 7 with assms(2) show ?thesis by (auto simp: emergency_reorder_def bind_exn_def split: sum.splits)
  next
    case 8 with assms(2) show ?thesis by (auto simp: block_reorder_def bind_exn_def split: sum.splits)
  next
    case 9 with assms(2) show ?thesis by (auto simp: increase_reorder_quantity_def bind_exn_def split: sum.splits)
  next
    case 10 with assms(2) show ?thesis by (auto simp: mark_for_clearance_def bind_exn_def split: sum.splits)
  next
    case 11 with assms(2) show ?thesis by (auto simp: schedule_data_deletion_def bind_exn_def split: sum.splits)
  next
    case 12 with assms(2) show ?thesis by (auto simp: request_consent_renewal_def bind_exn_def split: sum.splits)
  next
    case 13 with assms(2) show ?thesis by (auto simp: execute_data_deletion_def bind_exn_def split: sum.splits)
  next
    case 14 with assms(2) show ?thesis by (auto simp: enforce_encryption_def bind_exn_def split: sum.splits)
  next
    case 15 with assms(2) show ?thesis by (auto simp: route_to_senior_agent_def bind_exn_def split: sum.splits)
  next
    case 16 with assms(2) show ?thesis by (auto simp: escalate_to_technical_team_def bind_exn_def split: sum.splits)
  next
    case 17 with assms(2) show ?thesis by (auto simp: route_to_global_team_def bind_exn_def split: sum.splits)
  next
    case 18 with assms(2) show ?thesis by (auto simp: route_to_billing_specialist_def bind_exn_def split: sum.splits)
  qed
qed

text \<open>
  Claim C10. \<open>execute\<close> returns a dictionary (a result mapping, never another value and
  never a raise) for every action name, parameters and context; when the registered
  handler raises \<open>e\<close>, the dictionary is \<open>success = False\<close> with the error
  \<open>Error executing <action>: <str(e)>\<close> and the traceback text.
\<close>

theorem execute_total:
  "(\<exists>d. DefaultActionExecutor_execute rt action parameters context = Inr (PDict d)) \<and>
   (\<forall>h e. map_of (supported_actions rt) action = Some h \<longrightarrow> h parameters context = Inl e \<longrightarrow>
      DefaultActionExecutor_execute rt action parameters context =
        Inr (PDict [
          (''success'', PBool False),
          (''error'', PStr (''Error executing '' @ action @ '': '' @ str_exn e)),
          (''traceback'', PStr (format_exc rt e))]))"
proof (intro conjI allI impI)
  show "\<exists>d. DefaultActionExecutor_execute rt action parameters context = Inr (PDict d)"
  proof (cases "map_of (supported_actions rt) action")
    case None
    then show ?thesis by (simp add: DefaultActionExecutor_execute_def)
  next
    case (Some h)
    show ?thesis
    proof (cases "h parameters context")
      case (Inl e)
      with Some show ?thesis by (simp add: DefaultActionExecutor_execute_def)
    next
      case (Inr out)
      with Some handlers_return_mapping [OF Some Inr] show ?thesis
        by (auto simp: DefaultActionExecutor_execute_def)
    qed
  qed
next
  fix h e
  assume "map_of (supported_actions rt) action = Some h" and "h parameters context = Inl e"
  then show "DefaultActionExecutor_execute rt action parameters context =
        Inr (PDict [
          (''success'', PBool False),
          (''error'', PStr (''Error executing '' @ action @ '': '' @ str_exn e)),
          (''traceback'', PStr (format_exc rt e))])"
    by (simp add: DefaultActionExecutor_execute_def)
qed

text \<open>
  The handler of \<open>emergency_reorder\<close> raises when the context holds
  \<open>minimum_stock_level = None\<close> (\<open>None * 2\<close>).
\<close>

theorem execute_total_witness:
  "map_of (supported_actions example_runtime) ''emergency_reorder''
     = Some (emergency_reorder example_runtime) \<and>
   emergency_reorder example_runtime (PDict []) (PDict [(''minimum_stock_level'', PNone)])
     = Inl (unsupported_operand ''*'' PNone (PInt 2)) \<and>
   DefaultActionExecutor_execute example_runtime ''emergency_reorder'' (PDict [])
       (PDict [(''minimum_stock_level'', PNone)]) =
     Inr (PDict [
       (''success'', PBool False),
       (''error'', PStr (''Error executing emergency_reorder: unsupported operand type(s) for *: ''
                        @ quote ''NoneType'' @ '' and '' @ quote ''int'')),
       (''traceback'', PStr ''Traceback (most recent call last)'')])"
proof -
  have a: "map_of (supported_actions example_runtime) ''emergency_reorder''
             = Some (emergency_reorder example_runtime)"
    by (simp add: supported_actions_def)
  have b: "emergency_reorder example_runtime (PDict []) (PDict [(''minimum_stock_level'', PNone)])
             = Inl (unsupported_operand ''*'' PNone (PInt 2))"
    by (simp add: emergency_reorder_def bind_exn_def py_mul_def)
  from execute_total [of example_runtime "''emergency_reorder''" "PDict []"
                         "PDict [(''minimum_stock_level'', PNone)]"]
  have "DefaultActionExecutor_execute example_runtime ''emergency_reorder'' (PDict [])
          (PDict [(''minimum_stock_level'', PNone)]) =
        Inr (PDict [
          (''success'', PBool False),
          (''error'', PStr (''Error executing '' @ ''emergency_reorder'' @ '': ''
                           @ str_exn (unsupported_operand ''*'' PNone (PInt 2)))),
          (''traceback'', PStr (format_exc example_runtime
                                 (unsupported_operand ''*'' PNone (PInt 2))))])"
    using a b by blast
  then show ?thesis using a b by (simp add: unsupported_operand_def example_runtime_def)
qed

section \<open>The execution history\<close>

lemma execute_plan_appends:
  "execution_history (snd (execute_plan rt eng p))
     = execution_history eng @ [fst (execute_plan rt eng p)]"
  by (simp add: execute_plan_def Let_def split: prod.splits)

lemma length_history_execute_plans:
  "length (execution_history (execute_plans rt eng ps))
     = length (execution_history eng) + length ps"
  by (induction ps arbitrary: eng) (simp_all add: execute_plan_appends)

text \<open>
  Claim C4, as amended. The history is append-only and has no bound: every
  \<open>execute_plan\<close> call appends exactly one plan, so after a sequence of calls the
  history has grown by the number of calls.
\<close>

theorem history_grows_with_every_call:
  "length (execution_history (execute_plans rt eng ps))
     = length (execution_history eng) + length ps"
  by (rule length_history_execute_plans)

text \<open>
  The claim as stated fails: on a fresh engine no bound holds for every sequence of
  calls (\<open>B + 1\<close> executions of the empty plan leave \<open>B + 1\<close> entries).
\<close>

theorem history_not_bounded:
  "\<not> (\<exists>B. \<forall>ps. length (execution_history
        (execute_plans example_runtime (new_engine (DefaultActionExecutor example_runtime)) ps)) \<le> B)"
proof
  assume "\<exists>B. \<forall>ps. length (execution_history
        (execute_plans example_runtime (new_engine (DefaultActionExecutor example_runtime)) ps)) \<le> B"
  then obtain B where b: "\<forall>ps. length (execution_history
        (execute_plans example_runtime (new_engine (DefaultActionExecutor example_runtime)) ps)) \<le> B" ..
  from b have "length (execution_history
        (execute_plans example_runtime (new_engine (DefaultActionExecutor example_runtime))
           (replicate (Suc B) empty_plan))) \<le> B" ..
  moreover have "length (execution_history
        (execute_plans example_runtime (new_engine (DefaultActionExecutor example_runtime))
           (replicate (Suc B) empty_plan))) = Suc B"
    unfolding length_history_execute_plans by (simp add: new_engine_def)
  ultimately show False by simp
qed

section \<open>Plan identifiers\<close>

lemma char_of_digit_inj:
  assumes "a < 10" "b < 10" "(char_of (48 + a) :: char) = char_of (48 + b)"
  shows "a = (b::nat)"
proof -
  from assms(3) have "of_char (char_of (48 + a) :: char) = (of_char (char_of (48 + b) :: char) :: nat)"
    by simp
  with assms(1,2) show ?thesis by (simp add: of_char_of)
qed

lemma str_nat_not_Nil: "str_nat n \<noteq> []"
  by (subst str_nat.simps) simp

lemma str_nat_length_ge2: "10 \<le> n \<Longrightarrow> 2 \<le> length (str_nat n)"
proof -
  assume "10 \<le> n"
  then have "str_nat n = str_nat (n div 10) @ [char_of (48 + n mod 10)]"
    by (subst str_nat.simps) simp
  moreover have "1 \<le> length (str_nat (n div 10))"
    using str_nat_not_Nil [of "n div 10"] by (cases "str_nat (n div 10)") simp_all
  ultimately show ?thesis by simp
qed

lemma str_nat_small: "n < 10 \<Longrightarrow> str_nat n = [char_of (48 + n)]"
  by (subst str_nat.simps) simp

lemma str_nat_large: "10 \<le> n \<Longrightarrow> str_nat n = str_nat (n div 10) @ [char_of (48 + n mod 10)]"
  by (subst str_nat.simps) simp

lemma str_nat_inj: "str_nat n = str_nat m \<Longrightarrow> n = m"
proof (induction n arbitrary: m rule: str_nat.induct)
  case (1 n)
  show ?case
  proof (cases "n < 10")
    case True
    show ?thesis
    proof (cases "m < 10")
      case mt: True
      from "1.prems" True mt show ?thesis
        by (simp add: str_nat_small)
    next
      case False
      then have "2 \<le> length (str_nat m)" by (simp add: str_nat_length_ge2)
      moreover from True have "length (str_nat n) = 1" by (simp add: str_nat_small)
      ultimately show ?thesis using "1.prems" by simp
    qed
  next
    case False
    show ?thesis
    proof (cases "m < 10")
      case True
      from False have "2 \<le> length (str_nat n)" by (simp add: str_nat_length_ge2)
      moreover from True have "length (str_nat m) = 1" by (simp add: str_nat_small)
      ultimately show ?thesis using "1.prems" by simp
    next
      case mf: False
      from "1.prems" False mf
      have eq: "str_nat (n div 10) @ [char_of (48 + n mod 10)] = str_nat (m div 10) @ [char_of (48 + m mod 10)]"
        by (simp add: str_nat_large)
      then have a: "str_nat (n div 10) = str_nat (m div 10)" and b: "(char_of (48 + n mod 10) :: char) = char_of (48 + m mod 10)"
        by simp_all
      from "1.IH" [OF False a] have d: "n div 10 = m div 10" .
      from b have r: "n mod 10 = m mod 10" by (intro char_of_digit_inj) simp_all
      from d r show ?thesis by (metis div_mult_mod_eq)
    qed
  qed
qed

lemma str_nat_no_underscore: "CHR ''_'' \<notin> set (str_nat n)"
proof (induction n rule: str_nat.induct)
  case (1 n)
  have digit: "\<And>k::nat. k < 10 \<Longrightarrow> (char_of (48 + k) :: char) \<noteq> CHR ''_''"
  proof
    fix k :: nat assume k: "k < 10" and e: "(char_of (48 + k) :: char) = CHR ''_''"
    from e have "of_char (char_of (48 + k) :: char) = (of_char (CHR ''_'') :: nat)" by simp
    with k show False by (simp add: of_char_of)
  qed
  show ?case
  proof (cases "n < 10")
    case True then show ?thesis using digit [of n] by (simp add: str_nat_small)
  next
    case False
    then show ?thesis using "1.IH" digit [of "n mod 10"] by (simp add: str_nat_large)
  qed
qed

lemma split_at_first:
  "c \<notin> set xs \<Longrightarrow> c \<notin> set xs' \<Longrightarrow> xs @ c # ys = xs' @ c # ys' \<Longrightarrow> xs = xs' \<and> ys = ys'"
proof (induction xs arbitrary: xs')
  case Nil
  then show ?case by (cases xs') auto
next
  case (Cons a xs)
  then show ?case by (cases xs') auto
qed

lemma split_at_last:
  assumes "xs @ c # ys = xs' @ c # ys'" "c \<notin> set ys" "c \<notin> set ys'"
  shows "xs = xs' \<and> ys = ys'"
proof -
  from assms(1) have "rev (xs @ c # ys) = rev (xs' @ c # ys')" by (rule arg_cong)
  then have "rev ys @ c # rev xs = rev ys' @ c # rev xs'" by simp
  with split_at_first [of c "rev ys" "rev ys'" "rev xs" "rev xs'"] assms(2,3)
  show ?thesis by simp
qed

lemma plan_id_inj:
  "(s1 @ CHR ''_'' # str_nat n = s2 @ CHR ''_'' # str_nat m) = (s1 = s2 \<and> n = m)"
proof
  assume "s1 @ CHR ''_'' # str_nat n = s2 @ CHR ''_'' # str_nat m"
  from split_at_last [OF this str_nat_no_underscore str_nat_no_underscore]
  show "s1 = s2 \<and> n = m" by (auto dest: str_nat_inj)
next
  assume "s1 = s2 \<and> n = m"
  then show "s1 @ CHR ''_'' # str_nat n = s2 @ CHR ''_'' # str_nat m" by simp
qed

text \<open>
  Claim C5, as amended. \<open>create_execution_plan\<close> leaves the engine as it was, and the
  identifier it assigns is determined by the clock reading (to the second) and the
  length of the history: two created plans have the same \<open>plan_id\<close> exactly when both
  agree. Plans created in different seconds, or with an \<open>execute_plan\<close> call between
  them, have distinct identifiers.
\<close>

theorem create_execution_plan_ids:
  "snd (create_execution_plan stamp eng scen rs ctx) = eng \<and>
   (plan_id (fst (create_execution_plan s1 e1 sc1 rs1 c1))
      = plan_id (fst (create_execution_plan s2 e2 sc2 rs2 c2))
    \<longleftrightarrow> s1 = s2 \<and> length (execution_history e1) = length (execution_history e2))"
  by (simp add: create_execution_plan_def plan_id_inj)

text \<open>
  The claim as stated fails: two plans created by one engine within the same second,
  with no execution between them, carry the same identifier.
\<close>

theorem plan_ids_coincide:
  "plan_id (fst (create_execution_plan ''20240101_120000''
       (new_engine (DefaultActionExecutor example_runtime)) ''first scenario'' [] (PDict [])))
   = plan_id (fst (create_execution_plan ''20240101_120000''
       (snd (create_execution_plan ''20240101_120000''
          (new_engine (DefaultActionExecutor example_runtime)) ''first scenario'' [] (PDict [])))
       ''second scenario'' [] (PDict [])))"
  by (simp add: create_execution_plan_def)

section \<open>Plan status and rule failures\<close>

lemma any_critical_numeric:
  "list_all has_numeric_priority rs \<Longrightarrow>
     any_critical rs rid = Inr (\<exists>r\<in>set rs. key_id r = rid \<and> priority_at_least_3 r)"
  by (induction rs)
     (auto simp: has_numeric_priority_def priority_at_least_3_def py_ge_int_def
           split: option.splits)

lemma critical_failures_numeric:
  "list_all has_numeric_priority rs \<Longrightarrow>
     critical_failures rs failed =
       Inr (filter (\<lambda>res. \<exists>r\<in>set rs. key_id r = rule_id res \<and> priority_at_least_3 r) failed)"
  by (induction failed) (simp_all add: any_critical_numeric)

lemma determine_overall_status_numeric:
  assumes "list_all has_numeric_priority rs"
  shows "determine_overall_status rs results =
     Inr (if \<exists>res\<in>set results. status res = FAILED \<and>
               (\<exists>r\<in>set rs. key_id r = rule_id res \<and> priority_at_least_3 r)
          then FAILED else COMPLETED)"
  unfolding determine_overall_status_def Let_def critical_failures_numeric [OF assms]
  by (auto simp: filter_empty_conv)

text \<open>
  When every failed rule has a numeric priority or none, the loop runs every rule of the
  plan, in order, and appends one result per rule.
\<close>

lemma run_rules_numeric:
  "list_all (\<lambda>r. key_priority r = None \<or> has_numeric_priority r) rs \<Longrightarrow>
     run_rules rt ex ctx rs results
       = (results @ map (\<lambda>r. execute_single_rule rt ex r ctx) rs, None)"
  by (induction rs arbitrary: results)
     (auto simp: Let_def has_numeric_priority_def py_ge_int_def split: option.splits sum.splits)

text \<open>An exception of the dispatch becomes a \<open>FAILED\<close> result carrying its text.\<close>

lemma execute_single_rule_captures:
  assumes "validate_parameters ex (key_action r)
             (case key_parameters r of Some p \<Rightarrow> p | None \<Rightarrow> PDict []) = Inr True"
      and "execute ex (key_action r)
             (case key_parameters r of Some p \<Rightarrow> p | None \<Rightarrow> PDict []) ctx = Inl e"
  shows "status (execute_single_rule rt ex r ctx) = FAILED \<and>
         error_message (execute_single_rule rt ex r ctx) = Some (PStr (str_exn e)) \<and>
         rule_id (execute_single_rule rt ex r ctx) = key_id r"
  using assms by (simp add: execute_single_rule_def Let_def rule_exception_def)

text \<open>
  For a plan whose rules all carry a numeric priority, the status is \<open>FAILED\<close> exactly
  when a failed result has the identifier of a rule of priority 3 or more, and
  \<open>COMPLETED\<close> otherwise.
\<close>

lemma execute_plan_status_numeric:
  assumes "list_all has_numeric_priority (rules plan)"
  shows "overall_status (fst (execute_plan rt eng plan)) =
     (if \<exists>res\<in>set (execution_results (fst (execute_plan rt eng plan))). status res = FAILED \<and>
               (\<exists>r\<in>set (rules plan). key_id r = rule_id res \<and> priority_at_least_3 r)
      then FAILED else COMPLETED)"
proof -
  from assms have "list_all (\<lambda>r. key_priority r = None \<or> has_numeric_priority r) (rules plan)"
    by (simp add: list_all_iff)
  note run = run_rules_numeric [OF this]
  show ?thesis
    unfolding execute_plan_def run determine_overall_status_numeric [OF assms]
    by (simp add: Let_def)
qed

text \<open>
  Claim C1, on the plan of one rule without a \<open>priority\<close> key whose action is not
  registered. The loop completes without an exception, with one \<open>FAILED\<close> result (the
  loop reads the priority with the default 1); the rule is not of priority 3 or more;
  the status computation reads \<open>rule["priority"]\<close>, raises \<open>KeyError\<close>, and the plan ends
  \<open>FAILED\<close>, where the claim gives \<open>COMPLETED\<close>.
\<close>

theorem missing_priority_fails_plan:
  "snd (run_rules example_runtime (DefaultActionExecutor example_runtime)
          (plan_context advisory_plan) (rules advisory_plan) (execution_results advisory_plan))
     = None \<and>
   map status (fst (run_rules example_runtime (DefaultActionExecutor example_runtime)
          (plan_context advisory_plan) (rules advisory_plan) (execution_results advisory_plan)))
     = [FAILED] \<and>
   map key_priority (rules advisory_plan) = [None] \<and>
   map priority_at_least_3 (rules advisory_plan) = [False] \<and>
   determine_overall_status (rules advisory_plan)
       (execution_results (fst (execute_plan example_runtime
          (new_engine (DefaultActionExecutor example_runtime)) advisory_plan)))
     = Inl (KeyError ''priority'') \<and>
   overall_status (fst (execute_plan example_runtime
       (new_engine (DefaultActionExecutor example_runtime)) advisory_plan)) = FAILED"
  by (simp add: advisory_plan_def plain_rule_def execute_plan_def new_engine_def Let_def
        execute_single_rule_def DefaultActionExecutor_def DefaultActionExecutor_execute_def
        supported_actions_def py_ge_int_def determine_overall_status_def priority_at_least_3_def)

text \<open>
  Claim C9, on a plan of two rules whose first rule has \<open>priority = None\<close>, run with an
  executor whose \<open>execute\<close> raises. The exception of the dispatch is captured in a
  \<open>FAILED\<close> result with its text, but the comparison \<open>None >= 3\<close> that follows in the loop
  raises, the loop ends, and the second rule is never run.
\<close>

theorem null_priority_aborts_plan:
  "execute crashing_executor ''charge_card'' (PDict []) (PDict [])
     = Inl (RuntimeError ''connection lost'') \<and>
   map rule_id (execution_results (fst (execute_plan example_runtime
       (new_engine crashing_executor) null_priority_plan))) = [''r1''] \<and>
   map error_message (execution_results (fst (execute_plan example_runtime
       (new_engine crashing_executor) null_priority_plan))) = [Some (PStr ''connection lost'')] \<and>
   map key_id (rules null_priority_plan) = [''r1'', ''r2''] \<and>
   overall_status (fst (execute_plan example_runtime
       (new_engine crashing_executor) null_priority_plan)) = FAILED"
  by (simp add: null_priority_plan_def plain_rule_def execute_plan_def new_engine_def Let_def
        execute_single_rule_def crashing_executor_def rule_exception_def py_ge_int_def)

section \<open>The decision pipeline: failures and confidence\<close>

lemma analyze_scenario_cases:
  "analyze_scenario co ag scen ctx dh ch =
     (case analysis_steps co (ag\<lparr>state := ANALYZING, current_scenario := Some scen, iteration_count := 0\<rparr>) scen ctx dh ch of
        Inr res \<Rightarrow> Inr res
      | Inl e \<Rightarrow> Inr (create_error_decision (ag\<lparr>state := ANALYZING, current_scenario := Some scen, iteration_count := 0\<rparr>) scen (str_exn e),
                     ag\<lparr>state := AGENT_ERROR, current_scenario := Some scen, iteration_count := 0\<rparr>))"
  by (simp add: analyze_scenario_def Let_def split: sum.splits)

text \<open>
  An exception of the retrieval call does not reach \<open>analyze_scenario\<close>: it gives the
  decision for "no rules found".
\<close>

lemma retrieval_failure_no_rules:
  assumes "query_rules co (enhance_query scen dh ch) 10 dh ch (confidence_threshold ag * (8 / 10))
             = Inl e"
  shows "analyze_scenario co ag scen ctx dh ch =
           Inr (create_no_rules_decision scen,
                ag\<lparr>state := QUERYING_RULES, current_scenario := Some scen, iteration_count := 0\<rparr>)"
  using assms
  by (simp add: analyze_scenario_def analysis_steps_def query_relevant_rules_def Let_def)

text \<open>
  Claim C2. For every scenario, context and hints \<open>analyze_scenario\<close> returns a decision
  and never raises. An exception of the retrieval call is absorbed in
  \<open>_query_relevant_rules\<close> and gives the decision \<open>No applicable business rules found\<close>
  with confidence 0; an exception \<open>e\<close> that leaves any other step of the pipeline gives
  the decision with the outcome \<open>Analysis failed: <str(e)>\<close>, confidence 0 and no
  applicable rule, and leaves the agent in the error state.
\<close>

theorem analyze_scenario_never_raises:
  "\<exists>d ag'. analyze_scenario co ag scen ctx dh ch = Inr (d, ag') \<and>
     (\<forall>e. query_rules co (enhance_query scen dh ch) 10 dh ch (confidence_threshold ag * (8 / 10)) = Inl e \<longrightarrow>
          decision_outcome d = ''No applicable business rules found'' \<and> confidence d = 0 \<and>
          applicable_rules d = []) \<and>
     (\<forall>e. analysis_steps co (ag\<lparr>state := ANALYZING, current_scenario := Some scen, iteration_count := 0\<rparr>)
              scen ctx dh ch = Inl e \<longrightarrow>
          decision_outcome d = ''Analysis failed: '' @ str_exn e \<and> confidence d = 0 \<and>
          applicable_rules d = [] \<and> state ag' = AGENT_ERROR)"
proof (cases "query_rules co (enhance_query scen dh ch) 10 dh ch (confidence_threshold ag * (8 / 10))")
  case (Inl e)
  have steps: "analysis_steps co (ag\<lparr>state := ANALYZING, current_scenario := Some scen, iteration_count := 0\<rparr>)
                 scen ctx dh ch
               = Inr (create_no_rules_decision scen,
                      ag\<lparr>state := QUERYING_RULES, current_scenario := Some scen, iteration_count := 0\<rparr>)"
    using Inl by (simp add: analysis_steps_def query_relevant_rules_def Let_def)
  show ?thesis
    unfolding retrieval_failure_no_rules [OF Inl] steps
    by (simp add: create_no_rules_decision_def)
next
  case (Inr results)
  show ?thesis
    unfolding analyze_scenario_cases Inr
    by (cases "analysis_steps co (ag\<lparr>state := ANALYZING, current_scenario := Some scen, iteration_count := 0\<rparr>) scen ctx dh ch")
       (auto simp: create_error_decision_def)
qed

text \<open>
  An answer of the reasoning provider that lacks \<open>rule_id\<close> raises \<open>KeyError\<close> inside
  \<open>_determine_executable_rules\<close>.
\<close>

lemma unnamed_reference_raises:
  "analysis_steps (loan_collaborators unnamed_reference)
      (example_agent\<lparr>state := ANALYZING, current_scenario := Some ''Customer wants a loan'', iteration_count := 0\<rparr>)
      ''Customer wants a loan'' None None None = Inl (KeyError ''rule_id'')"
  by (simp add: analysis_steps_def query_relevant_rules_def loan_collaborators_def Let_def
        analyze_with_llm_def bind_exn_def rule_data_def dict_item_def loan_search_result_def
        determine_executable_rules_def get_applicable_rules_def get_confidence_def
        unnamed_reference_def example_agent_def resolve_rules_def resolve_rule_def)

lemma unreachable_retrieval_raises:
  "query_rules unreachable_retrieval (enhance_query ''Customer wants a loan'' None None) 10 None None
      (confidence_threshold example_agent * (8 / 10)) = Inl (RuntimeError ''vector store unreachable'')"
  by (simp add: unreachable_retrieval_def)

theorem analyze_scenario_never_raises_witness:
  "query_rules unreachable_retrieval (enhance_query ''Customer wants a loan'' None None) 10 None None
      (confidence_threshold example_agent * (8 / 10)) = Inl (RuntimeError ''vector store unreachable'') \<and>
   (\<exists>d ag'. analyze_scenario unreachable_retrieval example_agent
               ''Customer wants a loan'' None None None = Inr (d, ag') \<and>
            decision_outcome d = ''No applicable business rules found'' \<and> confidence d = 0) \<and>
   analysis_steps (loan_collaborators unnamed_reference)
      (example_agent\<lparr>state := ANALYZING, current_scenario := Some ''Customer wants a loan'', iteration_count := 0\<rparr>)
      ''Customer wants a loan'' None None None = Inl (KeyError ''rule_id'') \<and>
   (\<exists>d ag'. analyze_scenario (loan_collaborators unnamed_reference) example_agent
               ''Customer wants a loan'' None None None = Inr (d, ag') \<and>
            decision_outcome d = ''Analysis failed: '' @ quote ''rule_id'' \<and> confidence d = 0)"
proof -
  have a: "\<exists>d ag'. analyze_scenario unreachable_retrieval example_agent
               ''Customer wants a loan'' None None None = Inr (d, ag') \<and>
            decision_outcome d = ''No applicable business rules found'' \<and> confidence d = 0"
    using analyze_scenario_never_raises [of unreachable_retrieval example_agent
            "''Customer wants a loan''" None None None]
          unreachable_retrieval_raises
    by auto
  have b: "\<exists>d ag'. analyze_scenario (loan_collaborators unnamed_reference) example_agent
               ''Customer wants a loan'' None None None = Inr (d, ag') \<and>
            decision_outcome d = ''Analysis failed: '' @ quote ''rule_id'' \<and> confidence d = 0"
    using analyze_scenario_never_raises [of "loan_collaborators unnamed_reference" example_agent
            "''Customer wants a loan''" None None None]
          unnamed_reference_raises
    by auto
  from a b unreachable_retrieval_raises unnamed_reference_raises show ?thesis by simp
qed

text \<open>
  Where the retrieval service raises, the decision returned does not begin with
  \<open>Analysis failed\<close>.
\<close>

theorem retrieval_failure_is_not_analysis_failed:
  "query_rules unreachable_retrieval (enhance_query ''Customer wants a loan'' None None) 10 None None
      (confidence_threshold example_agent * (8 / 10)) = Inl (RuntimeError ''vector store unreachable'') \<and>
   (\<exists>d ag'. analyze_scenario unreachable_retrieval example_agent
               ''Customer wants a loan'' None None None = Inr (d, ag') \<and>
            decision_outcome d = ''No applicable business rules found'' \<and>
            take (length ''Analysis failed'') (decision_outcome d) \<noteq> ''Analysis failed'')"
  unfolding retrieval_failure_no_rules [OF unreachable_retrieval_raises]
  by (simp add: unreachable_retrieval_def create_no_rules_decision_def)

lemma mean_bounds:
  fixes xs :: "real list"
  assumes "xs \<noteq> []" "\<forall>x\<in>set xs. a \<le> x \<and> x \<le> b"
  shows "a \<le> sum_list xs / real (length xs) \<and> sum_list xs / real (length xs) \<le> b"
proof -
  have lo: "a * real (length xs) \<le> sum_list xs" using assms(2)
    by (induction xs) (auto simp: algebra_simps)
  have hi: "sum_list xs \<le> b * real (length xs)" using assms(2)
    by (induction xs) (auto simp: algebra_simps)
  from assms(1) have pos: "0 < real (length xs)" by simp
  from lo hi pos show ?thesis by (simp add: pos_le_divide_eq pos_divide_le_eq)
qed

lemma create_decision_confidence:
  "create_decision ag scen executable a expl ctx = Inr d \<Longrightarrow>
     applicable_rules d = executable \<and>
     confidence d = (if executable = [] then 0
                     else sum_list (map rule_confidence executable) / real (length executable))"
  by (auto simp: create_decision_def Let_def bind_exn_def split: sum.splits)

lemma analysis_steps_confidence:
  "analysis_steps co ag scen ctx dh ch = Inr (d, ag') \<Longrightarrow>
     confidence d = (if applicable_rules d = [] then 0
                     else sum_list (map rule_confidence (applicable_rules d)) / real (length (applicable_rules d)))"
  by (auto simp: analysis_steps_def Let_def bind_exn_def create_no_rules_decision_def
           dest!: create_decision_confidence split: if_splits sum.splits)

lemma analyze_scenario_confidence:
  assumes "analyze_scenario co ag scen ctx dh ch = Inr (d, ag')"
  shows "confidence d = (if applicable_rules d = [] then 0
                     else sum_list (map rule_confidence (applicable_rules d)) / real (length (applicable_rules d)))"
proof (cases "analysis_steps co (ag\<lparr>state := ANALYZING, current_scenario := Some scen, iteration_count := 0\<rparr>) scen ctx dh ch")
  case (Inl e)
  with assms show ?thesis by (auto simp: analyze_scenario_cases create_error_decision_def)
next
  case (Inr res)
  with assms have "analysis_steps co (ag\<lparr>state := ANALYZING, current_scenario := Some scen, iteration_count := 0\<rparr>) scen ctx dh ch = Inr (d, ag')"
    by (simp add: analyze_scenario_cases)
  then show ?thesis by (rule analysis_steps_confidence)
qed

text \<open>
  Claim C6, as amended. The confidence of every decision \<open>analyze_scenario\<close> returns is
  the arithmetic mean of the confidences of its applicable rules, 0 when there are none;
  it lies in \<open>[0, 1]\<close> whenever each of those confidences, as the reasoning provider
  reported it, does. Nothing in the pipeline clamps a reported confidence.
\<close>

theorem decision_confidence_is_mean:
  assumes "analyze_scenario co ag scen ctx dh ch = Inr (d, ag')"
  shows "confidence d = (if applicable_rules d = [] then 0
                     else sum_list (map rule_confidence (applicable_rules d)) / real (length (applicable_rules d))) \<and>
         ((\<forall>r\<in>set (applicable_rules d). 0 \<le> rule_confidence r \<and> rule_confidence r \<le> 1) \<longrightarrow>
            0 \<le> confidence d \<and> confidence d \<le> 1)"
proof
  show c: "confidence d = (if applicable_rules d = [] then 0
                     else sum_list (map rule_confidence (applicable_rules d)) / real (length (applicable_rules d)))"
    using assms by (rule analyze_scenario_confidence)
  show "(\<forall>r\<in>set (applicable_rules d). 0 \<le> rule_confidence r \<and> rule_confidence r \<le> 1) \<longrightarrow>
            0 \<le> confidence d \<and> confidence d \<le> 1"
  proof
    assume b: "\<forall>r\<in>set (applicable_rules d). 0 \<le> rule_confidence r \<and> rule_confidence r \<le> 1"
    show "0 \<le> confidence d \<and> confidence d \<le> 1"
    proof (cases "applicable_rules d = []")
      case True with c show ?thesis by simp
    next
      case False
      then have ne: "map rule_confidence (applicable_rules d) \<noteq> []" by simp
      from b have "\<forall>x\<in>set (map rule_confidence (applicable_rules d)). 0 \<le> x \<and> x \<le> 1" by simp
      from mean_bounds [OF ne this] c False show ?thesis by simp
    qed
  qed
qed

lemma loan_decision:
  "7 / 10 \<le> c \<Longrightarrow>
   \<exists>d ag'. analyze_scenario (loan_collaborators (reported c)) example_agent
      ''Customer wants a $5000 loan with credit score 680'' None None None = Inr (d, ag') \<and>
      map key_id (applicable_rules d) = [''finance_loan_001''] \<and>
      map rule_confidence (applicable_rules d) = [c] \<and>
      confidence d = c"
  by (simp add: analyze_scenario_def analysis_steps_def query_relevant_rules_def loan_collaborators_def Let_def
        analyze_with_llm_def bind_exn_def rule_data_def dict_item_def loan_search_result_def
        determine_executable_rules_def get_applicable_rules_def get_confidence_def
        reported_def example_agent_def resolve_rules_def resolve_rule_def loan_rule_def
        merge_reasoning_results_def py_sort_key_def condition_met_def update_rule_def get_execution_order_def
        exec_rule_id_def exec_execution_order_def exec_condition_met_def exec_expected_outcome_def
        generate_explanation_for_def create_decision_def rule_confidence_def)


theorem decision_confidence_is_mean_witness:
  "\<exists>d ag'. analyze_scenario (loan_collaborators (reported (9 / 10))) example_agent
      ''Customer wants a $5000 loan with credit score 680'' None None None = Inr (d, ag') \<and>
      list_all (\<lambda>r. 0 \<le> rule_confidence r \<and> rule_confidence r \<le> 1) (applicable_rules d) \<and>
      confidence d = 9 / 10 \<and> 0 \<le> confidence d \<and> confidence d \<le> 1"
proof -
  from loan_decision [of "9 / 10"] obtain d ag' where
    a: "analyze_scenario (loan_collaborators (reported (9 / 10))) example_agent
          ''Customer wants a $5000 loan with credit score 680'' None None None = Inr (d, ag')"
    and r: "map rule_confidence (applicable_rules d) = [9 / 10]"
    and c: "confidence d = 9 / 10"
    by auto
  have "list_all (\<lambda>x. 0 \<le> x \<and> x \<le> 1) (map rule_confidence (applicable_rules d))"
    unfolding r by simp
  then have b: "\<forall>r\<in>set (applicable_rules d). 0 \<le> rule_confidence r \<and> rule_confidence r \<le> 1"
    by (simp add: list_all_iff)
  from decision_confidence_is_mean [OF a] b
  have "0 \<le> confidence d \<and> confidence d \<le> 1" by blast
  with a b c show ?thesis by (auto simp: list_all_iff)
qed

text \<open>
  The claim as stated fails: when the provider reports the confidence 5 for the one
  applicable rule, the decision's confidence is 5.
\<close>

theorem confidence_above_one:
  "\<exists>d ag'. analyze_scenario (loan_collaborators (reported 5)) example_agent
      ''Customer wants a $5000 loan with credit score 680'' None None None = Inr (d, ag') \<and>
      confidence d = 5 \<and> \<not> confidence d \<le> 1"
proof -
  from loan_decision [of 5] obtain d ag' where
    "analyze_scenario (loan_collaborators (reported 5)) example_agent
          ''Customer wants a $5000 loan with credit score 680'' None None None = Inr (d, ag')"
    "confidence d = 5"
    by auto
  then show ?thesis by auto
qed

section \<open>The service layer: analysis followed by execution\<close>

lemma analyze_scenario_returns:
  "\<exists>d ag'. analyze_scenario co ag scen ctx dh ch = Inr (d, ag')"
  unfolding analyze_scenario_cases
  by (cases "analysis_steps co (ag\<lparr>state := ANALYZING, current_scenario := Some scen, iteration_count := 0\<rparr>) scen ctx dh ch")
     auto

lemma skipped_execution_fields:
  "summary_overall_status (skipped_execution scen) = ''skipped'' \<and>
   total_rules (skipped_execution scen) = 0 \<and>
   successful_rules (skipped_execution scen) = 0 \<and>
   failed_rules (skipped_execution scen) = 0"
  by (simp add: skipped_execution_def)

text \<open>
  Claim C8. On an initialised service \<open>analyze_and_execute\<close> returns the analysis
  together with an execution summary. When the analysis has no applicable rule the
  summary is the synthesized one (status \<open>skipped\<close>, all three counts 0) and the engine
  is untouched; otherwise it is the summary of the plan that \<open>create_execution_plan\<close>
  and \<open>execute_plan\<close> make of the applicable rules, and the engine is as \<open>execute_plan\<close>
  leaves it.
\<close>

theorem analyze_and_execute_composes:
  assumes "initialized svc"
  shows "\<exists>d ag1. analyze_scenario co (service_agent svc) scen ctx dh ch = Inr (d, ag1) \<and>
     analyze_and_execute rt stamp co svc scen ctx dh ch =
       Inr (\<lparr>response_scenario = scen,
             response_analysis = d,
             response_execution =
               (if applicable_rules d = [] then skipped_execution scen
                else get_execution_summary (fst (execute_plan rt (execution_engine svc)
                       (fst (create_execution_plan stamp (execution_engine svc) scen
                               (applicable_rules d) (context_or_empty ctx))))))\<rparr>,
            svc\<lparr>service_agent := ag1,
                execution_engine :=
                  (if applicable_rules d = [] then execution_engine svc
                   else snd (execute_plan rt (execution_engine svc)
                          (fst (create_execution_plan stamp (execution_engine svc) scen
                                  (applicable_rules d) (context_or_empty ctx)))))\<rparr>) \<and>
     summary_overall_status (skipped_execution scen) = ''skipped'' \<and>
     total_rules (skipped_execution scen) = 0 \<and>
     successful_rules (skipped_execution scen) = 0 \<and>
     failed_rules (skipped_execution scen) = 0"
proof -
  from analyze_scenario_returns obtain d ag1 where
    a: "analyze_scenario co (service_agent svc) scen ctx dh ch = Inr (d, ag1)" by blast
  have "analyze_and_execute rt stamp co svc scen ctx dh ch =
       Inr (\<lparr>response_scenario = scen,
             response_analysis = d,
             response_execution =
               (if applicable_rules d = [] then skipped_execution scen
                else get_execution_summary (fst (execute_plan rt (execution_engine svc)
                       (fst (create_execution_plan stamp (execution_engine svc) scen
                               (applicable_rules d) (context_or_empty ctx))))))\<rparr>,
            svc\<lparr>service_agent := ag1,
                execution_engine :=
                  (if applicable_rules d = [] then execution_engine svc
                   else snd (execute_plan rt (execution_engine svc)
                          (fst (create_execution_plan stamp (execution_engine svc) scen
                                  (applicable_rules d) (context_or_empty ctx)))))\<rparr>)"
    using assms a
    by (simp add: analyze_and_execute_def service_analyze_scenario_def service_execute_rules_def
          bind_exn_def create_execution_plan_def split: prod.splits)
  with a skipped_execution_fields show ?thesis by blast
qed

lemma no_candidates_decision:
  "analyze_scenario no_candidates example_agent ''Order a pizza'' None None None =
     Inr (create_no_rules_decision ''Order a pizza'',
          example_agent\<lparr>state := QUERYING_RULES, current_scenario := Some ''Order a pizza'', iteration_count := 0\<rparr>)"
  by (simp add: analyze_scenario_def analysis_steps_def query_relevant_rules_def no_candidates_def
        loan_collaborators_def Let_def)

lemma loan_decision_rules:
  "7 / 10 \<le> c \<Longrightarrow>
   \<exists>d ag'. analyze_scenario (loan_collaborators (reported c)) example_agent
      ''Customer wants a $5000 loan with credit score 680'' None None None = Inr (d, ag') \<and>
      applicable_rules d = [resolved_loan_rule c] \<and> confidence d = c"
  by (simp add: analyze_scenario_def analysis_steps_def query_relevant_rules_def loan_collaborators_def Let_def
        analyze_with_llm_def bind_exn_def rule_data_def dict_item_def loan_search_result_def
        determine_executable_rules_def get_applicable_rules_def get_confidence_def
        reported_def example_agent_def resolve_rules_def resolve_rule_def loan_rule_def
        merge_reasoning_results_def py_sort_key_def condition_met_def update_rule_def get_execution_order_def
        exec_rule_id_def exec_execution_order_def exec_condition_met_def exec_expected_outcome_def
        generate_explanation_for_def create_decision_def rule_confidence_def resolved_loan_rule_def)

text \<open>Both branches, on the example service: no candidate retrieved, and one rule applied.\<close>

theorem analyze_and_execute_composes_witness:
  "initialized example_service \<and>
   (\<exists>resp svc'. analyze_and_execute example_runtime ''20240101_120000'' no_candidates example_service
        ''Order a pizza'' None None None = Inr (resp, svc') \<and>
      applicable_rules (response_analysis resp) = [] \<and>
      response_execution resp = skipped_execution ''Order a pizza'' \<and>
      summary_overall_status (response_execution resp) = ''skipped'' \<and>
      total_rules (response_execution resp) = 0 \<and>
      execution_history (execution_engine svc') = []) \<and>
   (\<exists>resp svc'. analyze_and_execute example_runtime ''20240101_120000''
        (loan_collaborators (reported (9 / 10))) example_service
        ''Customer wants a $5000 loan with credit score 680'' None None None = Inr (resp, svc') \<and>
      applicable_rules (response_analysis resp) = [resolved_loan_rule (9 / 10)] \<and>
      summary_overall_status (response_execution resp) = ''completed'' \<and>
      total_rules (response_execution resp) = 1 \<and>
      successful_rules (response_execution resp) = 1 \<and>
      failed_rules (response_execution resp) = 0 \<and>
      length (execution_history (execution_engine svc')) = 1)"
proof -
  have i: "initialized example_service" by (simp add: example_service_def)
  from analyze_and_execute_composes [OF i, of no_candidates "''Order a pizza''" None None None
         example_runtime "''20240101_120000''"]
  have skipped: "\<exists>resp svc'. analyze_and_execute example_runtime ''20240101_120000'' no_candidates example_service
        ''Order a pizza'' None None None = Inr (resp, svc') \<and>
      applicable_rules (response_analysis resp) = [] \<and>
      response_execution resp = skipped_execution ''Order a pizza'' \<and>
      summary_overall_status (response_execution resp) = ''skipped'' \<and>
      total_rules (response_execution resp) = 0 \<and>
      execution_history (execution_engine svc') = []"
    by (auto simp: no_candidates_decision create_no_rules_decision_def example_service_def
          new_engine_def skipped_execution_def)
  from loan_decision_rules [of "9 / 10"] obtain d0 ag0 where
    a: "analyze_scenario (loan_collaborators (reported (9 / 10))) example_agent
          ''Customer wants a $5000 loan with credit score 680'' None None None = Inr (d0, ag0)"
    and k: "applicable_rules d0 = [resolved_loan_rule (9 / 10)]"
    by auto
  have agent: "service_agent example_service = example_agent" by (simp add: example_service_def)
  have run: "execute_plan example_runtime (new_engine (DefaultActionExecutor example_runtime))
       (fst (create_execution_plan ''20240101_120000'' (new_engine (DefaultActionExecutor example_runtime))
          ''Customer wants a $5000 loan with credit score 680'' [resolved_loan_rule (9 / 10)] (PDict [])))
     = (p, e) \<Longrightarrow> overall_status p = COMPLETED \<and> map status (execution_results p) = [COMPLETED] \<and>
         length (rules p) = 1 \<and> length (execution_history e) = 1" for p e
    by (auto simp: execute_plan_def create_execution_plan_def new_engine_def Let_def resolved_loan_rule_def
          execute_single_rule_def DefaultActionExecutor_def DefaultActionExecutor_execute_def
          supported_actions_def approve_basic_review_def determine_overall_status_def)
  from analyze_and_execute_composes [OF i, of "loan_collaborators (reported (9 / 10))"
         "''Customer wants a $5000 loan with credit score 680''" None None None
         example_runtime "''20240101_120000''"]
  have executed: "\<exists>resp svc'. analyze_and_execute example_runtime ''20240101_120000''
        (loan_collaborators (reported (9 / 10))) example_service
        ''Customer wants a $5000 loan with credit score 680'' None None None = Inr (resp, svc') \<and>
      applicable_rules (response_analysis resp) = [resolved_loan_rule (9 / 10)] \<and>
      summary_overall_status (response_execution resp) = ''completed'' \<and>
      total_rules (response_execution resp) = 1 \<and>
      successful_rules (response_execution resp) = 1 \<and>
      failed_rules (response_execution resp) = 0 \<and>
      length (execution_history (execution_engine svc')) = 1"
    using run [OF surjective_pairing]
    by (auto simp: agent a k context_or_empty_def get_execution_summary_def example_service_def)
  from i skipped executed show ?thesis by blast
qed


section \<open>Merging the ordering answer\<close>



















































text \<open>
  Why the kept entries must name different rules: \<open>final_rules\<close> holds the dictionary of
  a rule itself, so a rule listed twice appears twice with the order and outcome of its
  last entry.
\<close>

lemma repeated_answer_result:
  "merge_reasoning_results (PList (map PDict repeated_answer)) two_full_rules =
     Inr [update_rule (repeated_answer ! 1) (two_full_rules ! 0),
          update_rule (repeated_answer ! 1) (two_full_rules ! 0),
          update_rule (repeated_answer ! 2) (two_full_rules ! 1)]"
  by (simp add: merge_reasoning_results_def repeated_answer_def two_full_rules_def bind_exn_def
        condition_met_def exec_rule_id_def exec_execution_order_def exec_condition_met_def exec_expected_outcome_def plain_rule_def update_rule_def get_execution_order_def py_sort_key_def)

lemma repeated_answer_by_value:
  "sort_key order_number (kept_in_provider_order repeated_answer two_full_rules) =
     [update_rule (repeated_answer ! 1) (two_full_rules ! 0),
      update_rule (repeated_answer ! 2) (two_full_rules ! 1),
      update_rule (repeated_answer ! 0) (two_full_rules ! 0)]"
  by (simp add: repeated_answer_def two_full_rules_def
        condition_met_def exec_rule_id_def exec_execution_order_def exec_condition_met_def exec_expected_outcome_def plain_rule_def update_rule_def get_execution_order_def order_number_def
        kept_in_provider_order_def)

text \<open>
  Why the verdict is a truth value and the orders must be numbers: a verdict that is the
  string \<open>false\<close> keeps its rule, and two kept entries whose \<open>execution_order\<close> is \<open>null\<close>
  make the sort raise; a single one is compared with nothing. An entry that is no
  dictionary, and an \<open>executable_rules\<close> that is \<open>null\<close>, raise as well.
\<close>

lemma quoted_verdict_kept:
  "\<exists>final_rules. merge_reasoning_results (PList (map PDict quoted_verdict_answer)) two_full_rules = Inr final_rules \<and>
     map key_id final_rules = [''B'']"
  by (simp add: merge_reasoning_results_def quoted_verdict_answer_def two_full_rules_def
        bind_exn_def condition_met_def exec_rule_id_def exec_execution_order_def exec_condition_met_def exec_expected_outcome_def plain_rule_def update_rule_def get_execution_order_def
        py_sort_key_def)

lemma null_orders_raise:
  "merge_reasoning_results (PList (map PDict null_order_answer)) two_full_rules =
     Inl (TypeError (quote ''<'' @ '' not supported between instances of ''
                     @ quote ''NoneType'' @ '' and '' @ quote ''NoneType''))"
  by (simp add: merge_reasoning_results_def null_order_answer_def two_full_rules_def
        bind_exn_def condition_met_def exec_rule_id_def exec_execution_order_def exec_condition_met_def exec_expected_outcome_def plain_rule_def update_rule_def get_execution_order_def
        py_sort_key_def)

lemma single_null_order_returns:
  "\<exists>final_rules. merge_reasoning_results (PList [PDict (null_order_answer ! 0)]) two_full_rules = Inr final_rules \<and>
     map key_id final_rules = [''A'']"
  by (simp add: merge_reasoning_results_def null_order_answer_def two_full_rules_def
        bind_exn_def condition_met_def exec_rule_id_def exec_execution_order_def exec_condition_met_def exec_expected_outcome_def plain_rule_def update_rule_def get_execution_order_def
        py_sort_key_def)

lemma entry_not_a_dictionary_raises:
  "merge_reasoning_results (PList (map PDict tied_answer @ [PStr ''A''])) two_full_rules =
     Inl (AttributeError (quote ''str'' @ '' object has no attribute '' @ quote ''get''))"
  by (simp add: merge_reasoning_results_def tied_answer_def two_full_rules_def bind_exn_def
        condition_met_def exec_rule_id_def exec_execution_order_def exec_condition_met_def
        exec_expected_outcome_def plain_rule_def update_rule_def)

lemma null_answer_raises:
  "merge_reasoning_results PNone two_full_rules =
     Inl (TypeError (quote ''NoneType'' @ '' object is not iterable''))"
  by (simp add: merge_reasoning_results_def bind_exn_def)

end
